theory Spec2Isabelle
  imports Main "HOL-Library.Word"
begin

unbundle bit_operations_syntax

section \<open>JavaScript strings and arrays\<close>

text \<open>
  A JavaScript string is a sequence of UTF-16 code units. The embedding keeps that:
  a string is a list of 16-bit words, and \<open>js\<close> turns a literal of the theory into one.
\<close>

type_synonym jsstring = "16 word list"

definition js :: "string \<Rightarrow> jsstring" where
  "js s = map of_char s"

definition dquote :: "16 word" where
  "dquote = 0x22"

definition backslash :: "16 word" where
  "backslash = 0x5C"

text \<open>
  \<open>String.prototype.slice\<close> and \<open>Array.prototype.slice\<close>: a negative index counts
  from the end, both indices are clamped to the length, and an empty range gives the
  empty sequence.
\<close>

definition sliceJS :: "'a list \<Rightarrow> int \<Rightarrow> int \<Rightarrow> 'a list" where
  "sliceJS xs start end =
     (let len = int (length xs);
          from = (if start < 0 then max (len + start) 0 else min start len);
          to = (if end < 0 then max (len + end) 0 else min end len)
      in take (nat (to - from)) (drop (nat from) xs))"

text \<open>\<open>Array.prototype.push\<close> and \<open>Array.prototype.join\<close>.\<close>

definition push :: "'a list \<Rightarrow> 'a \<Rightarrow> 'a list" where
  "push xs x = xs @ [x]"

fun join :: "jsstring \<Rightarrow> jsstring list \<Rightarrow> jsstring" where
  "join sep [] = []"
| "join sep [x] = x"
| "join sep (x # y # ys) = x @ sep @ join sep (y # ys)"

text \<open>
  \<open>String.prototype.trim\<close> removes the WhiteSpace and LineTerminator code points of
  ECMAScript from both ends.
\<close>

definition isWhiteSpace :: "16 word \<Rightarrow> bool" where
  "isWhiteSpace c =
     (c = 0x09 \<or> c = 0x0A \<or> c = 0x0B \<or> c = 0x0C \<or> c = 0x0D \<or> c = 0x20 \<or> c = 0xA0
      \<or> c = 0x1680 \<or> (0x2000 \<le> c \<and> c \<le> 0x200A) \<or> c = 0x2028 \<or> c = 0x2029
      \<or> c = 0x202F \<or> c = 0x205F \<or> c = 0x3000 \<or> c = 0xFEFF)"

definition trim :: "jsstring \<Rightarrow> jsstring" where
  "trim s = rev (dropWhile isWhiteSpace (rev (dropWhile isWhiteSpace s)))"

section \<open>Clause escaper (utils/cql.util.ts)\<close>

text \<open>
  \<open>escapeCqlValue\<close> is \<open>JSON.stringify(value).slice(1, -1)\<close>. \<open>JSON.stringify\<close> on a
  string is QuoteJSONString of ECMA-262: the string is read code point by code point;
  backspace, tab, line feed, form feed, carriage return, the double quote and the
  backslash get their two-character escapes, every other code unit below U+0020 and
  every surrogate that is not half of a pair is written as a backslash, \<open>u\<close> and four
  lower-case hexadecimal digits, and everything else is copied.
\<close>

definition isLeadingSurrogate :: "16 word \<Rightarrow> bool" where
  "isLeadingSurrogate c = (0xD800 \<le> c \<and> c \<le> 0xDBFF)"

definition isTrailingSurrogate :: "16 word \<Rightarrow> bool" where
  "isTrailingSurrogate c = (0xDC00 \<le> c \<and> c \<le> 0xDFFF)"

definition hexDigit :: "16 word \<Rightarrow> 16 word" where
  "hexDigit n = (if n < 10 then 0x30 + n else 0x61 + (n - 10))"

definition UnicodeEscape :: "16 word \<Rightarrow> jsstring" where
  "UnicodeEscape c =
     [backslash, 0x75, hexDigit (drop_bit 12 c), hexDigit (drop_bit 8 c AND 0xF),
      hexDigit (drop_bit 4 c AND 0xF), hexDigit (c AND 0xF)]"

definition quoteCodeUnit :: "16 word \<Rightarrow> jsstring" where
  "quoteCodeUnit c =
     (if c = 0x08 then [backslash, 0x62]
      else if c = 0x09 then [backslash, 0x74]
      else if c = 0x0A then [backslash, 0x6E]
      else if c = 0x0C then [backslash, 0x66]
      else if c = 0x0D then [backslash, 0x72]
      else if c = dquote then [backslash, dquote]
      else if c = backslash then [backslash, backslash]
      else if c < 0x20 \<or> isLeadingSurrogate c \<or> isTrailingSurrogate c then UnicodeEscape c
      else [c])"

fun quoteJSONChars :: "jsstring \<Rightarrow> jsstring" where
  "quoteJSONChars [] = []"
| "quoteJSONChars [c] = quoteCodeUnit c"
| "quoteJSONChars (c # d # cs) =
     (if isLeadingSurrogate c \<and> isTrailingSurrogate d then c # d # quoteJSONChars cs
      else quoteCodeUnit c @ quoteJSONChars (d # cs))"

definition JSON_stringify :: "jsstring \<Rightarrow> jsstring" where
  "JSON_stringify v = dquote # quoteJSONChars v @ [dquote]"

definition escapeCqlValue :: "jsstring \<Rightarrow> jsstring" where
  "escapeCqlValue v = (let jsonString = JSON_stringify v in sliceJS jsonString 1 (- 1))"

section \<open>Reading a quoted literal back\<close>



section \<open>Shared service types\<close>

text \<open>
  Errors are values. A thrown error is an \<open>McpError\<close> (a message and an optional HTTP
  status); \<open>ensureMcpError\<close> leaves such a value as it is. \<open>handleControllerError\<close>
  (utils/error-handler.util) never returns: it throws an error built from the one it is
  given. The model takes it as a function on errors, a parameter of each controller,
  and the operation fails with its result.
\<close>

record McpError =
  message :: jsstring
  statusCode :: "int option"

record ControllerResponse =
  content :: jsstring

text \<open>The parameters of \<open>atlassianSearchService.search\<close>; a field left out is \<open>None\<close>.\<close>

record SearchParams =
  sp_cql :: jsstring
  sp_limit :: "int option"
  sp_cursor :: "jsstring option"
  sp_excerpt :: "jsstring option"
  sp_includeArchivedSpaces :: "bool option"

record SearchResultContent =
  c_type :: "jsstring option"
  c_id :: "jsstring option"
  c_title :: "jsstring option"
  c_status :: "jsstring option"

record SearchResult =
  r_content :: "SearchResultContent option"
  r_title :: "jsstring option"
  r_space_id :: "jsstring option"
  r_lastModified :: "jsstring option"
  r_url :: "jsstring option"

record SearchResponse =
  results :: "SearchResult list"
  links_next :: "jsstring option"
  links_base :: "jsstring option"

text \<open>A string is truthy when it is defined and not empty.\<close>

definition truthy :: "jsstring option \<Rightarrow> bool" where
  "truthy v = (case v of None \<Rightarrow> False | Some s \<Rightarrow> s \<noteq> [])"

section \<open>Query synthesizer (controllers/atlassian.search.controller.ts)\<close>

record SearchToolArgs =
  title :: "jsstring option"
  spaceKey :: "jsstring option"
  labels :: "jsstring list option"
  contentType :: "jsstring option"
  query :: "jsstring option"
  cql :: "jsstring option"
  limit :: "int option"
  cursor :: "jsstring option"

text \<open>The array \<open>cqlParts\<close> of \<open>buildCqlQuery\<close> after its five conditional pushes.\<close>

definition cqlParts :: "SearchToolArgs \<Rightarrow> jsstring list" where
  \<open>cqlParts options =
     (let parts0 = [];
          parts1 = (case title options of
                      Some t \<Rightarrow> if t \<noteq> [] then push parts0 (js ''title ~ "'' @ escapeCqlValue t @ js ''"'')
                                else parts0
                    | None \<Rightarrow> parts0);
          parts2 = (case spaceKey options of
                      Some k \<Rightarrow> if k \<noteq> [] then push parts1 (js ''space = "'' @ escapeCqlValue k @ js ''"'')
                                else parts1
                    | None \<Rightarrow> parts1);
          parts3 = (case labels options of
                      Some ls \<Rightarrow>
                        if length ls > 0 then
                          (let escapedLabels = map escapeCqlValue ls
                           in foldl (\<lambda>acc label. push acc (js ''label = "'' @ label @ js ''"'')) parts2 escapedLabels)
                        else parts2
                    | None \<Rightarrow> parts2);
          parts4 = (case contentType options of
                      Some ct \<Rightarrow> if ct \<noteq> [] then push parts3 (js ''type = '' @ ct) else parts3
                    | None \<Rightarrow> parts3);
          parts5 = (case query options of
                      Some q \<Rightarrow> if q \<noteq> [] then push parts4 (js ''text ~ "'' @ escapeCqlValue q @ js ''"'')
                                else parts4
                    | None \<Rightarrow> parts4)
      in parts5)\<close>

definition buildCqlQuery :: "SearchToolArgs \<Rightarrow> jsstring" where
  \<open>buildCqlQuery options =
     (let generatedCql = join (js '' AND '') (cqlParts options)
      in case cql options of
           Some raw \<Rightarrow>
             if raw \<noteq> [] \<and> trim raw \<noteq> [] then
               (if generatedCql \<noteq> [] then js ''('' @ generatedCql @ js '') AND ('' @ raw @ js '')''
                else raw)
             else generatedCql
         | None \<Rightarrow> generatedCql)\<close>

text \<open>
  Modelled from the spec: \<open>applyDefaults\<close> of utils/defaults.util, whose body is
  missing. It fills the fields the caller left undefined from the defaults and keeps
  every other field; the only default \<open>search\<close> passes is \<open>limit: DEFAULT_PAGE_SIZE\<close>,
  a constant of the same module, taken as a parameter.
\<close>

definition applyDefaults :: "SearchToolArgs \<Rightarrow> int \<Rightarrow> SearchToolArgs" where
  "applyDefaults options DEFAULT_PAGE_SIZE =
     (case limit options of None \<Rightarrow> options\<lparr>limit := Some DEFAULT_PAGE_SIZE\<rparr> | Some _ \<Rightarrow> options)"

definition enrichSearch400 :: "McpError \<Rightarrow> McpError" where
  \<open>enrichSearch400 mcpError =
     (if statusCode mcpError = Some 400 then
        mcpError\<lparr>message :=
          js ''Search failed (Status 400 - Bad Request): '' @ message mcpError
          @ js ''. This may be due to invalid CQL syntax. Please check your CQL query, ensure terms in text searches are quoted (e.g., text ~ "your terms"), and refer to the Confluence CQL documentation.''\<rparr>
      else mcpError)\<close>

text \<open>
  \<open>search\<close> of the search controller. The remote query executor
  (\<open>atlassianSearchService.search\<close>) is the parameter \<open>searchService\<close>; the result is the
  list of calls made to it, in order, and either the thrown error or the response. What
  the controller does with a successful page (pagination extraction and Markdown
  rendering, in the pagination and formatter utilities) is the parameter
  \<open>renderResults\<close>, applied to the executed query and the page.
\<close>

definition search ::
  "int \<Rightarrow> (SearchParams \<Rightarrow> McpError + SearchResponse) \<Rightarrow> (jsstring \<Rightarrow> SearchResponse \<Rightarrow> jsstring)
   \<Rightarrow> (McpError \<Rightarrow> McpError) \<Rightarrow> SearchToolArgs
   \<Rightarrow> SearchParams list \<times> (McpError + ControllerResponse)" where
  "search DEFAULT_PAGE_SIZE searchService renderResults handleControllerError options =
     (let mergedOptions = applyDefaults options DEFAULT_PAGE_SIZE;
          finalCql = buildCqlQuery mergedOptions
      in if finalCql = [] \<or> trim finalCql = [] then
           ([], Inr \<lparr>content = js ''Please provide search criteria (CQL, title, space, etc.).''\<rparr>)
         else
           (let params = \<lparr>sp_cql = finalCql, sp_limit = limit mergedOptions,
                          sp_cursor = cursor mergedOptions, sp_excerpt = Some (js ''highlight''),
                          sp_includeArchivedSpaces = Some False\<rparr>
            in case searchService params of
                 Inl error \<Rightarrow> ([params], Inl (handleControllerError (enrichSearch400 error)))
               | Inr searchData \<Rightarrow> ([params], Inr \<lparr>content = renderResults finalCql searchData\<rparr>)))"

section \<open>Federated search (controllers/atlassian.universal-search.controller.ts)\<close>

datatype UniversalSearchSectionKey = Spaces | Pages | BlogPosts | Attachments | Comments

record UniversalSearchToolArgs =
  u_query :: "jsstring option"
  u_spaceKey :: "jsstring option"
  u_labels :: "jsstring list option"
  u_includeSpaces :: "bool option"
  u_includePages :: "bool option"
  u_includeBlogPosts :: "bool option"
  u_includeAttachments :: "bool option"
  u_includeComments :: "bool option"
  u_limitPerType :: "int option"

record NormalizedUniversalOptions =
  n_query :: jsstring
  n_spaceKey :: "jsstring option"
  n_labels :: "jsstring list option"
  includeSpaces :: bool
  includePages :: bool
  includeBlogPosts :: bool
  includeAttachments :: bool
  includeComments :: bool
  limitPerType :: int

definition DEFAULT_LIMIT_PER_TYPE :: int where
  "DEFAULT_LIMIT_PER_TYPE = 5"

fun SECTION_TO_CQL_TYPE :: "UniversalSearchSectionKey \<Rightarrow> jsstring" where
  "SECTION_TO_CQL_TYPE Spaces = js ''space''"
| "SECTION_TO_CQL_TYPE Pages = js ''page''"
| "SECTION_TO_CQL_TYPE BlogPosts = js ''blogpost''"
| "SECTION_TO_CQL_TYPE Attachments = js ''attachment''"
| "SECTION_TO_CQL_TYPE Comments = js ''comment''"

definition orTrue :: "bool option \<Rightarrow> bool" where
  "orTrue b = (case b of Some v \<Rightarrow> v | None \<Rightarrow> True)"

definition normalizeOptions :: "UniversalSearchToolArgs \<Rightarrow> NormalizedUniversalOptions" where
  "normalizeOptions options =
     (let trimmedQuery = (case u_query options of Some q \<Rightarrow> trim q | None \<Rightarrow> [])
      in \<lparr>n_query = trimmedQuery,
          n_spaceKey = (case u_spaceKey options of
                          Some k \<Rightarrow> if trim k \<noteq> [] then Some (trim k) else None
                        | None \<Rightarrow> None),
          n_labels = (case u_labels options of
                        Some ls \<Rightarrow> Some (filter (\<lambda>label. length label > 0) (map trim ls))
                      | None \<Rightarrow> None),
          includeSpaces = orTrue (u_includeSpaces options),
          includePages = orTrue (u_includePages options),
          includeBlogPosts = orTrue (u_includeBlogPosts options),
          includeAttachments = orTrue (u_includeAttachments options),
          includeComments = orTrue (u_includeComments options),
          limitPerType = (case u_limitPerType options of
                            Some l \<Rightarrow> min (max l 1) 25
                          | None \<Rightarrow> DEFAULT_LIMIT_PER_TYPE)\<rparr>)"

text \<open>The array \<open>clauses\<close> of \<open>buildTypeSpecificCql\<close> before it is joined.\<close>

definition typeSpecificClauses ::
  "UniversalSearchSectionKey \<Rightarrow> NormalizedUniversalOptions \<Rightarrow> jsstring list" where
  \<open>typeSpecificClauses type options =
     (let clauses0 = [];
          clauses1 = push clauses0 (js ''type = '' @ SECTION_TO_CQL_TYPE type);
          clauses2 = push clauses1 (js ''text ~ "'' @ escapeCqlValue (n_query options) @ js ''"'');
          clauses3 = (if type \<noteq> Spaces \<and> truthy (n_spaceKey options) then
                        push clauses2 (js ''space = "'' @ escapeCqlValue (the (n_spaceKey options)) @ js ''"'')
                      else clauses2);
          clauses4 = (case n_labels options of
                        Some ls \<Rightarrow>
                          if type = Pages \<or> type = BlogPosts then
                            foldl (\<lambda>acc label. push acc (js ''label = "'' @ escapeCqlValue label @ js ''"''))
                              clauses3 ls
                          else clauses3
                      | None \<Rightarrow> clauses3)
      in clauses4)\<close>

definition buildTypeSpecificCql ::
  "UniversalSearchSectionKey \<Rightarrow> NormalizedUniversalOptions \<Rightarrow> jsstring" where
  "buildTypeSpecificCql type options = join (js '' AND '') (typeSpecificClauses type options)"

text \<open>The parameters \<open>executeSearchForType\<close> hands to the remote query executor.\<close>

definition searchParamsForType ::
  "UniversalSearchSectionKey \<Rightarrow> NormalizedUniversalOptions \<Rightarrow> SearchParams" where
  "searchParamsForType type options =
     \<lparr>sp_cql = buildTypeSpecificCql type options, sp_limit = Some (limitPerType options),
      sp_cursor = None, sp_excerpt = Some (js ''highlight''),
      sp_includeArchivedSpaces = Some False\<rparr>"

definition executeSearchForType ::
  "(SearchParams \<Rightarrow> McpError + SearchResponse) \<Rightarrow> UniversalSearchSectionKey
   \<Rightarrow> NormalizedUniversalOptions \<Rightarrow> McpError + SearchResult list" where
  "executeSearchForType searchService type options =
     (case searchService (searchParamsForType type options) of
        Inl error \<Rightarrow> Inl error
      | Inr response \<Rightarrow> Inr (results response))"

text \<open>
  \<open>Promise.all\<close>: all promises are already running. It rejects with the reason of the
  promise that rejects first in time, and otherwise fulfils with all values in the
  order of the array. Time is not part of the model, so the order in which the promises
  settle is a parameter: a list of array indices (an index that is missing from it
  settles after the listed ones, in array order).
\<close>

definition Promise_all :: "nat list \<Rightarrow> (McpError + 'a) list \<Rightarrow> McpError + 'a list" where
  "Promise_all settleOrder promises =
     (case concat (map (\<lambda>i. if i < length promises
                             then (case promises ! i of Inl e \<Rightarrow> [e] | Inr _ \<Rightarrow> [])
                             else [])
                       (settleOrder @ [0..<length promises])) of
        e # _ \<Rightarrow> Inl e
      | [] \<Rightarrow> Inr (concat (map (\<lambda>p. case p of Inl _ \<Rightarrow> [] | Inr v \<Rightarrow> [v]) promises)))"

record UniversalSearchFormatterInput =
  fi_query :: jsstring
  fi_spaceKey :: "jsstring option"
  fi_labels :: "jsstring list option"
  fi_limitPerType :: int
  fi_includedTypes :: "UniversalSearchSectionKey list"
  fi_results :: "UniversalSearchSectionKey \<rightharpoonup> SearchResult list"

definition includedTypesOf :: "NormalizedUniversalOptions \<Rightarrow> UniversalSearchSectionKey list" where
  "includedTypesOf normalizedOptions =
     map fst (filter snd
       [(Spaces, includeSpaces normalizedOptions),
        (Pages, includePages normalizedOptions),
        (BlogPosts, includeBlogPosts normalizedOptions),
        (Attachments, includeAttachments normalizedOptions),
        (Comments, includeComments normalizedOptions)])"

definition emptyResultsByType :: "UniversalSearchSectionKey \<rightharpoonup> SearchResult list" where
  "emptyResultsByType =
     [Spaces \<mapsto> [], Pages \<mapsto> [], BlogPosts \<mapsto> [], Attachments \<mapsto> [], Comments \<mapsto> []]"

definition enrichUniversal400 :: "McpError \<Rightarrow> McpError" where
  "enrichUniversal400 mcpError =
     (if statusCode mcpError = Some 400 then
        mcpError\<lparr>message :=
          js ''Universal search failed (Status 400 - Bad Request): '' @ message mcpError
          @ js ''. This may indicate invalid CQL generated from the provided filters. Double-check the query text and filters.''\<rparr>
      else mcpError)"

text \<open>
  What \<open>search\<close> of the universal search controller has in hand when it leaves its
  \<open>try\<close> block: an advisory text (no query, no category), the error that
  \<open>Promise.all\<close> rejected with, or the input it passes to
  \<open>formatUniversalSearchResults\<close>.
\<close>

datatype gathered =
  Advisory jsstring
| Rejected McpError
| Gathered UniversalSearchFormatterInput

text \<open>
  The first component is the list of calls made to the remote query executor. Every
  call of \<open>executeSearchForType\<close> runs up to its \<open>await\<close> inside \<open>map\<close>, so one call
  per enabled category is issued, in the order of the categories, whatever the outcome.
\<close>

definition universalSearchGather ::
  "nat list \<Rightarrow> (SearchParams \<Rightarrow> McpError + SearchResponse) \<Rightarrow> UniversalSearchToolArgs
   \<Rightarrow> SearchParams list \<times> gathered" where
  \<open>universalSearchGather settleOrder searchService options =
     (if \<not> truthy (u_query options) \<or> length (trim (the (u_query options))) = 0 then
        ([], Advisory (js ''Please provide a search query (for example: `--query "design"`).''))
      else
        (let normalizedOptions = normalizeOptions options;
             includedTypes = includedTypesOf normalizedOptions
         in if length includedTypes = 0 then
              ([], Advisory (js ''No content types selected. Enable at least one type (pages, spaces, blog posts, attachments, or comments).''))
            else
              (let searchPromises =
                     map (\<lambda>type. case executeSearchForType searchService type normalizedOptions of
                                    Inl error \<Rightarrow> Inl error
                                  | Inr rs \<Rightarrow> Inr (type, rs))
                         includedTypes;
                   calls = map (\<lambda>type. searchParamsForType type normalizedOptions) includedTypes
               in case Promise_all settleOrder searchPromises of
                    Inl error \<Rightarrow> (calls, Rejected error)
                  | Inr resolvedResults \<Rightarrow>
                      (let resultsByType =
                             foldl (\<lambda>m (type, rs). m(type \<mapsto> rs)) emptyResultsByType resolvedResults
                       in (calls,
                           Gathered \<lparr>fi_query = n_query normalizedOptions,
                                     fi_spaceKey = n_spaceKey normalizedOptions,
                                     fi_labels = n_labels normalizedOptions,
                                     fi_limitPerType = limitPerType normalizedOptions,
                                     fi_includedTypes = includedTypes,
                                     fi_results = resultsByType\<rparr>)))))\<close>

text \<open>
  \<open>search\<close> of the universal search controller (named \<open>universalSearch\<close> here, the
  search controller's \<open>search\<close> has the name already). The renderer
  \<open>formatUniversalSearchResults\<close> depends on the formatter utilities and on the clock:
  it is a parameter.
\<close>

definition universalSearch ::
  "nat list \<Rightarrow> (SearchParams \<Rightarrow> McpError + SearchResponse)
   \<Rightarrow> (UniversalSearchFormatterInput \<Rightarrow> jsstring) \<Rightarrow> (McpError \<Rightarrow> McpError)
   \<Rightarrow> UniversalSearchToolArgs \<Rightarrow> SearchParams list \<times> (McpError + ControllerResponse)" where
  "universalSearch settleOrder searchService formatUniversalSearchResults handleControllerError options =
     (case universalSearchGather settleOrder searchService options of
        (calls, Advisory text) \<Rightarrow> (calls, Inr \<lparr>content = text\<rparr>)
      | (calls, Rejected error) \<Rightarrow> (calls, Inl (handleControllerError (enrichUniversal400 error)))
      | (calls, Gathered input) \<Rightarrow>
          (calls, Inr \<lparr>content = formatUniversalSearchResults input\<rparr>))"

section \<open>Hybrid title lookup (services/vendor.atlassian.pages.service.ts)\<close>

record ListPagesParams =
  lp_spaceId :: "jsstring list option"
  lp_title :: "jsstring option"
  lp_status :: "jsstring list option"
  lp_query :: "jsstring option"
  lp_parentId :: "jsstring option"
  lp_bodyFormat :: "jsstring option"
  lp_sort :: "jsstring option"
  lp_cursor :: "jsstring option"
  lp_limit :: "int option"

record PageVersion =
  v_number :: int
  v_authorId :: jsstring
  v_message :: jsstring
  v_createdAt :: jsstring

record PageLinks =
  l_editui :: jsstring
  l_webui :: jsstring
  l_self :: jsstring
  l_tinyui :: jsstring

record Page =
  p_id :: jsstring
  p_status :: jsstring
  p_title :: jsstring
  p_spaceId :: jsstring
  p_version :: PageVersion
  p_authorId :: jsstring
  p_createdAt :: jsstring
  p_parentId :: "jsstring option"
  p_parentType :: "jsstring option"
  p_position :: "int option"
  p_links :: PageLinks

record PagesResponse =
  pr_results :: "Page list"
  pr_next :: "jsstring option"
  pr_base :: jsstring

record Space =
  s_id :: jsstring
  s_key :: jsstring

text \<open>
  The remote calls of the pages service, as they appear in its trace: the primary
  request (its path is a function of the parameters, so the parameters stand for it),
  the space lookup with its identifiers and limit, and the fallback query.
\<close>

datatype remoteCall =
  FetchPages ListPagesParams
| ListSpaces "jsstring list" int
| SearchCall SearchParams

text \<open>\<open>a || b\<close> on strings: \<open>a\<close> when it is truthy, \<open>b\<close> otherwise.\<close>

definition orElse :: "jsstring option \<Rightarrow> jsstring \<Rightarrow> jsstring" where
  "orElse a b = (case a of Some s \<Rightarrow> if s \<noteq> [] then s else b | None \<Rightarrow> b)"

text \<open>\<open>now\<close> is \<open>new Date().toISOString()\<close>.\<close>

definition transformSearchResultsToPagesFormat :: "jsstring \<Rightarrow> SearchResponse \<Rightarrow> PagesResponse" where
  "transformSearchResultsToPagesFormat now searchResults =
     (let pageResults =
            map (\<lambda>result.
                   (let c = the (r_content result)
                    in \<lparr>p_id = the (c_id c),
                        p_status = orElse (c_status c) (js ''current''),
                        p_title = orElse (c_title c) (orElse (r_title result) []),
                        p_spaceId = orElse (r_space_id result) [],
                        p_version = \<lparr>v_number = 1, v_authorId = [], v_message = [],
                                      v_createdAt = orElse (r_lastModified result) now\<rparr>,
                        p_authorId = [],
                        p_createdAt = orElse (r_lastModified result) now,
                        p_parentId = None, p_parentType = None, p_position = None,
                        p_links = \<lparr>l_editui = orElse (r_url result) [],
                                    l_webui = orElse (r_url result) [],
                                    l_self = orElse (r_url result) [],
                                    l_tinyui = orElse (r_url result) []\<rparr>\<rparr>))
                (filter (\<lambda>result.
                           (case r_content result of
                              None \<Rightarrow> False
                            | Some c \<Rightarrow> c_type c = Some (js ''page'') \<and> truthy (c_id c)))
                        (results searchResults))
      in \<lparr>pr_results = pageResults, pr_next = links_next searchResults,
          pr_base = orElse (links_base searchResults) []\<rparr>)"

text \<open>
  \<open>tryPartialTitleSearch\<close>. \<open>spacesList\<close> is \<open>atlassianSpacesService.list\<close> and
  \<open>searchService\<close> the remote query executor; a failure of either is caught inside, so
  the function always returns a page. The first component is the trace of its calls.
\<close>

definition tryPartialTitleSearch ::
  "(jsstring list \<Rightarrow> int \<Rightarrow> McpError + Space list)
   \<Rightarrow> (SearchParams \<Rightarrow> McpError + SearchResponse) \<Rightarrow> jsstring \<Rightarrow> ListPagesParams
   \<Rightarrow> remoteCall list \<times> PagesResponse" where
  \<open>tryPartialTitleSearch spacesList searchService now params =
     (let cqlParts0 = [];
          cqlParts1 = (if truthy (lp_title params)
                       then push cqlParts0 (js ''title ~ "'' @ the (lp_title params) @ js ''*"'')
                       else cqlParts0);
          (calls1, cqlParts2) =
            (case lp_spaceId params of
               None \<Rightarrow> ([], cqlParts1)
             | Some ids \<Rightarrow>
                 if length ids = 0 then ([], cqlParts1)
                 else
                   (case spacesList ids 100 of
                      Inl error \<Rightarrow> ([ListSpaces ids 100], cqlParts1)
                    | Inr spaces \<Rightarrow>
                        if length spaces > 0 then
                          (let spaceKeys = map s_key spaces;
                               spaceConditions =
                                 join (js '' OR '') (map (\<lambda>key. js ''space = "'' @ key @ js ''"'') spaceKeys)
                           in ([ListSpaces ids 100], push cqlParts1 (js ''('' @ spaceConditions @ js '')'')))
                        else ([ListSpaces ids 100], cqlParts1)));
          cqlParts3 = push cqlParts2 (js ''type = "page"'');
          cqlText = join (js '' AND '') cqlParts3;
          searchParams = \<lparr>sp_cql = cqlText,
                          sp_limit = Some (case lp_limit params of
                                             Some l \<Rightarrow> if l \<noteq> 0 then l else 25
                                           | None \<Rightarrow> 25),
                          sp_cursor = None, sp_excerpt = None, sp_includeArchivedSpaces = None\<rparr>
      in case searchService searchParams of
           Inl error \<Rightarrow>
             (calls1 @ [SearchCall searchParams],
              \<lparr>pr_results = [], pr_next = None, pr_base = []\<rparr>)
         | Inr searchResults \<Rightarrow>
             (calls1 @ [SearchCall searchParams],
              transformSearchResultsToPagesFormat now searchResults))\<close>

text \<open>
  What \<open>fetchAtlassian\<close> resolves with is checked by \<open>PagesResponseSchema.parse\<close>:
  either it is a well-formed page, or the parse throws a \<open>ZodError\<close> with a message,
  which \<open>list\<close> rethrows as an API error with status 500.
\<close>

datatype rawData = WellFormed PagesResponse | Malformed jsstring

fun PagesResponseSchema_parse :: "rawData \<Rightarrow> jsstring + PagesResponse" where
  "PagesResponseSchema_parse (WellFormed page) = Inr page"
| "PagesResponseSchema_parse (Malformed zodMessage) = Inl zodMessage"

definition createApiError :: "jsstring \<Rightarrow> int \<Rightarrow> McpError" where
  "createApiError msg status = \<lparr>message = msg, statusCode = Some status\<rparr>"

text \<open>
  \<open>list\<close> of the pages service (\<open>listPages\<close> here). \<open>credentials\<close> tells whether
  \<open>getAtlassianCredentials()\<close> returned credentials, \<open>authMissing\<close> is the error
  \<open>createAuthMissingError\<close> builds otherwise, and \<open>fetchAtlassian\<close> is the primary
  request.
\<close>

definition listPages ::
  "bool \<Rightarrow> McpError \<Rightarrow> (ListPagesParams \<Rightarrow> McpError + rawData)
   \<Rightarrow> (jsstring list \<Rightarrow> int \<Rightarrow> McpError + Space list)
   \<Rightarrow> (SearchParams \<Rightarrow> McpError + SearchResponse) \<Rightarrow> jsstring \<Rightarrow> ListPagesParams
   \<Rightarrow> remoteCall list \<times> (McpError + PagesResponse)" where
  "listPages credentials authMissing fetchAtlassian spacesList searchService now params =
     (if \<not> credentials then ([], Inl authMissing)
      else
        (case fetchAtlassian params of
           Inl error \<Rightarrow> ([FetchPages params], Inl error)
         | Inr raw \<Rightarrow>
             (case PagesResponseSchema_parse raw of
                Inl zodMessage \<Rightarrow>
                  ([FetchPages params],
                   Inl (createApiError (js ''API response validation failed: '' @ zodMessage) 500))
              | Inr validatedData \<Rightarrow>
                  if truthy (lp_title params) \<and> length (pr_results validatedData) = 0
                     \<and> \<not> truthy (lp_cursor params)
                  then
                    (case tryPartialTitleSearch spacesList searchService now params of
                       (calls, partialResults) \<Rightarrow>
                         if length (pr_results partialResults) > 0
                         then (FetchPages params # calls, Inr partialResults)
                         else (FetchPages params # calls, Inr validatedData))
                  else ([FetchPages params], Inr validatedData))))"

section \<open>Inline comments (controllers/atlassian.comments.controller.ts)\<close>

record InlineProperties =
  markerRef :: "jsstring option"
  containerId :: "jsstring option"
  originalSelection :: "jsstring option"
  textContext :: "jsstring option"
  selectionText :: "jsstring option"

record Extensions =
  location :: "jsstring option"
  inlineProperties :: "InlineProperties option"

record CommentData =
  cd_id :: jsstring
  cd_status :: jsstring
  cd_title :: jsstring
  cd_body :: "jsstring option"
  cd_extensions :: "Extensions option"
  cd_webui :: "jsstring option"

text \<open>\<open>{...comment, convertedMarkdownBody, highlightedText}\<close>\<close>

record CommentWithContext =
  comment :: CommentData
  convertedMarkdownBody :: jsstring
  highlightedText :: "jsstring option"

record ListPageCommentsParams =
  lc_pageId :: jsstring
  lc_limit :: int
  lc_start :: int
  lc_bodyFormat :: jsstring

record CommentsResponse =
  cr_results :: "CommentData list"
  cr_base :: "jsstring option"

datatype SortBy = created | position

record ListInlineCommentsOptions =
  o_pageId :: jsstring
  o_includeResolved :: "bool option"
  o_sortBy :: "SortBy option"
  o_limit :: "int option"
  o_start :: "int option"
  o_bodyFormat :: "jsstring option"

text \<open>
  \<open>Array.prototype.sort\<close> with a comparator is a stable sort: \<open>a\<close> stays before \<open>b\<close>
  unless the comparator puts \<open>b\<close> first. Insertion from the right is one.
\<close>

fun insertBy :: "('a \<Rightarrow> 'a \<Rightarrow> int) \<Rightarrow> 'a \<Rightarrow> 'a list \<Rightarrow> 'a list" where
  "insertBy cmp x [] = [x]"
| "insertBy cmp x (y # ys) = (if cmp x y \<le> 0 then x # y # ys else y # insertBy cmp x ys)"

definition sortJS :: "('a \<Rightarrow> 'a \<Rightarrow> int) \<Rightarrow> 'a list \<Rightarrow> 'a list" where
  "sortJS cmp xs = foldr (insertBy cmp) xs []"

text \<open>The callback of the \<open>filter\<close> in \<open>listInlineComments\<close>.\<close>

definition keepInline :: "bool \<Rightarrow> CommentData \<Rightarrow> bool" where
  "keepInline includeResolved c =
     (let isInline = (case cd_extensions c of
                        Some e \<Rightarrow> location e = Some (js ''inline'')
                      | None \<Rightarrow> False)
      in if \<not> includeResolved \<and> cd_status c \<noteq> js ''current'' then False else isInline)"

text \<open>
  The callback of the \<open>map\<close>. \<open>adfToMarkdown\<close> (utils/adf.util) is a parameter; it may
  throw (\<open>None\<close>), in which case the default text stays.
\<close>

definition withContext :: "(jsstring \<Rightarrow> jsstring option) \<Rightarrow> CommentData \<Rightarrow> CommentWithContext" where
  "withContext adfToMarkdown c =
     (let unavailable = js ''*Content format not supported or unavailable*'';
          markdownBody =
            (case cd_body c of
               Some v \<Rightarrow> if v \<noteq> [] then (case adfToMarkdown v of Some md \<Rightarrow> md | None \<Rightarrow> unavailable)
                         else unavailable
             | None \<Rightarrow> unavailable);
          highlighted =
            (case cd_extensions c of
               None \<Rightarrow> None
             | Some e \<Rightarrow>
                 (case inlineProperties e of
                    None \<Rightarrow> None
                  | Some props \<Rightarrow>
                      (let h = (if truthy (originalSelection props) then originalSelection props
                                else textContext props)
                       in if \<not> truthy h \<and> selectionText props \<noteq> None then selectionText props
                          else h)))
      in \<lparr>comment = c, convertedMarkdownBody = markdownBody, highlightedText = highlighted\<rparr>)"

definition positionKey :: "CommentWithContext \<Rightarrow> jsstring" where
  "positionKey a =
     (case cd_extensions (comment a) of
        None \<Rightarrow> cd_id (comment a)
      | Some e \<Rightarrow>
          (case inlineProperties e of
             None \<Rightarrow> cd_id (comment a)
           | Some props \<Rightarrow> orElse (markerRef props) (cd_id (comment a))))"

record InlineListing =
  il_comments :: "CommentWithContext list"
  il_pageId :: jsstring
  il_baseUrl :: jsstring
  il_totalCount :: nat
  il_start :: int
  il_limit :: int

text \<open>
  \<open>listInlineComments\<close> up to the arguments it hands to \<open>formatInlineCommentsList\<close>.
  \<open>listPageComments\<close> is the comments service, \<open>localeCompare\<close> the collation of the
  platform and \<open>DEFAULT_PAGE_SIZE\<close> the constant of utils/defaults.util. The first
  component is the trace of the calls to the service.
\<close>

definition listInlineCommentsGather ::
  "int \<Rightarrow> (ListPageCommentsParams \<Rightarrow> McpError + CommentsResponse)
   \<Rightarrow> (jsstring \<Rightarrow> jsstring option) \<Rightarrow> (jsstring \<Rightarrow> jsstring \<Rightarrow> int)
   \<Rightarrow> ListInlineCommentsOptions \<Rightarrow> ListPageCommentsParams list \<times> (McpError + InlineListing)" where
  "listInlineCommentsGather DEFAULT_PAGE_SIZE listPageComments adfToMarkdown localeCompare options =
     (let pageId = o_pageId options;
          includeResolved = (case o_includeResolved options of Some b \<Rightarrow> b | None \<Rightarrow> False);
          sortOrder = (case o_sortBy options of Some v \<Rightarrow> v | None \<Rightarrow> position);
          lim = (case o_limit options of Some l \<Rightarrow> l | None \<Rightarrow> DEFAULT_PAGE_SIZE);
          start = (case o_start options of Some v \<Rightarrow> v | None \<Rightarrow> 0);
          bodyFormat = (case o_bodyFormat options of Some f \<Rightarrow> f | None \<Rightarrow> js ''atlas_doc_format'');
          request = \<lparr>lc_pageId = pageId, lc_limit = 250, lc_start = 0, lc_bodyFormat = bodyFormat\<rparr>
      in case listPageComments request of
           Inl error \<Rightarrow> ([request], Inl error)
         | Inr allCommentsData \<Rightarrow>
             (let inlineCommentsRaw = filter (keepInline includeResolved) (cr_results allCommentsData);
                  convertedComments = map (withContext adfToMarkdown) inlineCommentsRaw;
                  sortedComments =
                    (case sortOrder of
                       position \<Rightarrow>
                         sortJS (\<lambda>a b. localeCompare (positionKey a) (positionKey b)) convertedComments
                     | created \<Rightarrow>
                         sortJS (\<lambda>a b. localeCompare (cd_id (comment a)) (cd_id (comment b)))
                           convertedComments);
                  paginatedComments = sliceJS sortedComments start (start + lim);
                  baseUrl = orElse (cr_base allCommentsData) []
              in ([request],
                  Inr \<lparr>il_comments = paginatedComments, il_pageId = pageId, il_baseUrl = baseUrl,
                       il_totalCount = length sortedComments, il_start = start, il_limit = lim\<rparr>)))"

definition listInlineComments ::
  "int \<Rightarrow> (ListPageCommentsParams \<Rightarrow> McpError + CommentsResponse)
   \<Rightarrow> (jsstring \<Rightarrow> jsstring option) \<Rightarrow> (jsstring \<Rightarrow> jsstring \<Rightarrow> int)
   \<Rightarrow> (InlineListing \<Rightarrow> jsstring) \<Rightarrow> (McpError \<Rightarrow> McpError)
   \<Rightarrow> ListInlineCommentsOptions \<Rightarrow> ListPageCommentsParams list \<times> (McpError + ControllerResponse)" where
  "listInlineComments DEFAULT_PAGE_SIZE listPageComments adfToMarkdown localeCompare
       formatInlineCommentsList handleControllerError options =
     (case listInlineCommentsGather DEFAULT_PAGE_SIZE listPageComments adfToMarkdown localeCompare options of
        (calls, Inl error) \<Rightarrow> (calls, Inl (handleControllerError error))
      | (calls, Inr listing) \<Rightarrow> (calls, Inr \<lparr>content = formatInlineCommentsList listing\<rparr>))"

text \<open>
  Modelled from the spec: a remote with offset-based pagination ("paging keyed by a
  numeric start index and page size"), standing for the comments service, whose body
  is missing. It serves the comments of a page from \<open>start\<close>, at most \<open>limit\<close> of
  them.
\<close>

definition pagedComments ::
  "CommentData list \<Rightarrow> ListPageCommentsParams \<Rightarrow> McpError + CommentsResponse" where
  "pagedComments allComments p =
     Inr \<lparr>cr_results = take (nat (lc_limit p)) (drop (nat (lc_start p)) allComments),
          cr_base = None\<rparr>"

section \<open>The specification's wording, as predicates\<close>

text \<open>
  A clause "of the form \<open>field OP "value"\<close>": a field with its operator and an opening
  double quote (one of the given heads), and a closing double quote at the end. The
  claim about clause forms counts the content type among the quoted fields
  (\<open>clauseHeads\<close>); \<open>valueHeads\<close> are the four fields without it.
\<close>

definition quotedWith :: "jsstring list \<Rightarrow> jsstring \<Rightarrow> bool" where
  "quotedWith heads c =
     list_ex (\<lambda>h. length h < length c \<and> take (length h) c = h \<and> last c = dquote) heads"

definition valueHeads :: "jsstring list" where
  \<open>valueHeads = [js ''title ~ "'', js ''text ~ "'', js ''space = "'', js ''label = "'']\<close>

definition clauseHeads :: "jsstring list" where
  \<open>clauseHeads = valueHeads @ [js ''type = "'']\<close>

definition quotedClause :: "jsstring \<Rightarrow> bool" where
  "quotedClause c = quotedWith clauseHeads c"

definition quotedValueClause :: "jsstring \<Rightarrow> bool" where
  "quotedValueClause c = quotedWith valueHeads c"

text \<open>
  The escaper as the specification words it: backslashes and double quotes get a
  backslash in front, nothing else happens.
\<close>

definition escapeQuoteAndBackslash :: "jsstring \<Rightarrow> jsstring" where
  "escapeQuoteAndBackslash s =
     concat (map (\<lambda>c. if c = backslash \<or> c = dquote then [backslash, c] else [c]) s)"

text \<open>Well-formed UTF-16: every surrogate is half of a pair.\<close>

fun noLoneSurrogate :: "jsstring \<Rightarrow> bool" where
  "noLoneSurrogate [] = True"
| "noLoneSurrogate [c] = (\<not> isLeadingSurrogate c \<and> \<not> isTrailingSurrogate c)"
| "noLoneSurrogate (c # d # cs) =
     (if isLeadingSurrogate c \<and> isTrailingSurrogate d then noLoneSurrogate cs
      else \<not> isLeadingSurrogate c \<and> \<not> isTrailingSurrogate c \<and> noLoneSurrogate (d # cs))"

definition noControl :: "jsstring \<Rightarrow> bool" where
  "noControl s = list_all (\<lambda>c. 0x20 \<le> c) s"

fun isSearchCall :: "remoteCall \<Rightarrow> bool" where
  "isSearchCall (SearchCall _) = True"
| "isSearchCall _ = False"

section \<open>Example inputs\<close>

text \<open>
  A federated search for \<open>A"B\<close> with blanks around it, in space \<open>DEV\<close>, with two labels
  (one with a leading blank), spaces and pages enabled.
\<close>

definition exampleUniversalArgs :: UniversalSearchToolArgs where
  \<open>exampleUniversalArgs =
     \<lparr>u_query = Some (js '' A"B ''), u_spaceKey = Some (js ''DEV''),
      u_labels = Some [js ''x'', js '' y''],
      u_includeSpaces = None, u_includePages = None, u_includeBlogPosts = Some False,
      u_includeAttachments = Some False, u_includeComments = Some False,
      u_limitPerType = None\<rparr>\<close>

text \<open>A remote query executor that finds nothing.\<close>

definition emptySearchService :: "SearchParams \<Rightarrow> McpError + SearchResponse" where
  "emptySearchService params = Inr \<lparr>results = [], links_next = None, links_base = None\<rparr>"

definition exampleSearchArgs :: SearchToolArgs where
  \<open>exampleSearchArgs =
     \<lparr>title = Some (js ''A"B''), spaceKey = Some (js ''DEV''), labels = Some [js ''x''],
      contentType = Some (js ''page''), query = Some (js ''q''), cql = None, limit = None,
      cursor = None\<rparr>\<close>

definition noCriteriaArgs :: SearchToolArgs where
  "noCriteriaArgs =
     \<lparr>title = None, spaceKey = None, labels = None, contentType = None, query = None,
      cql = None, limit = Some 10, cursor = Some (js ''abc'')\<rparr>"

text \<open>
  A remote query executor that rejects the query for pages with status 400, a search
  with only pages enabled, one search hit and an executor that always returns it.
\<close>

definition pagesFailService :: "SearchParams \<Rightarrow> McpError + SearchResponse" where
  "pagesFailService params =
     (if take 11 (sp_cql params) = js ''type = page''
      then Inl \<lparr>message = js ''bad query'', statusCode = Some 400\<rparr>
      else emptySearchService params)"

definition onlyPagesArgs :: UniversalSearchToolArgs where
  "onlyPagesArgs =
     \<lparr>u_query = Some (js ''design''), u_spaceKey = None, u_labels = None,
      u_includeSpaces = Some False, u_includePages = Some True, u_includeBlogPosts = Some False,
      u_includeAttachments = Some False, u_includeComments = Some False,
      u_limitPerType = Some 3\<rparr>"

definition exampleHit :: SearchResult where
  "exampleHit =
     \<lparr>r_content = Some \<lparr>c_type = Some (js ''page''), c_id = Some (js ''42''),
                         c_title = Some (js ''Balance sheet''), c_status = None\<rparr>,
      r_title = None, r_space_id = Some (js ''7''), r_lastModified = None, r_url = None\<rparr>"

definition oneHitService :: "SearchParams \<Rightarrow> McpError + SearchResponse" where
  "oneHitService params = Inr \<lparr>results = [exampleHit], links_next = None, links_base = None\<rparr>"

text \<open>
  For the pages service: a primary request that finds no page, a request that filters
  by title (with or without a cursor), a space lookup that finds nothing and the error
  for missing credentials.
\<close>

definition emptyPage :: PagesResponse where
  "emptyPage = \<lparr>pr_results = [], pr_next = None, pr_base = js ''https://example.atlassian.net/wiki''\<rparr>"

definition emptyPrimary :: "ListPagesParams \<Rightarrow> McpError + rawData" where
  "emptyPrimary params = Inr (WellFormed emptyPage)"

definition titleParams :: "jsstring \<Rightarrow> jsstring option \<Rightarrow> ListPagesParams" where
  "titleParams t c =
     \<lparr>lp_spaceId = None, lp_title = Some t, lp_status = None, lp_query = None,
      lp_parentId = None, lp_bodyFormat = None, lp_sort = None, lp_cursor = c,
      lp_limit = None\<rparr>"

definition noSpaces :: "jsstring list \<Rightarrow> int \<Rightarrow> McpError + Space list" where
  "noSpaces ids lim = Inr []"

definition authMissingError :: McpError where
  "authMissingError = \<lparr>message = js ''site name required'', statusCode = Some 401\<rparr>"

text \<open>
  For the comments controller: a footer comment, an inline comment, a page whose first
  250 comments are footer comments and whose 251st is inline, and a request for the
  window from 200 on.
\<close>

definition pageComment :: CommentData where
  "pageComment =
     \<lparr>cd_id = js ''100'', cd_status = js ''current'', cd_title = js ''Re: Plan'',
      cd_body = None, cd_extensions = Some \<lparr>location = Some (js ''footer''), inlineProperties = None\<rparr>,
      cd_webui = None\<rparr>"

definition inlineComment :: CommentData where
  "inlineComment =
     \<lparr>cd_id = js ''900'', cd_status = js ''current'', cd_title = js ''Re: Plan'',
      cd_body = None, cd_extensions = Some \<lparr>location = Some (js ''inline''), inlineProperties = None\<rparr>,
      cd_webui = None\<rparr>"

definition inlineOptions :: ListInlineCommentsOptions where
  "inlineOptions =
     \<lparr>o_pageId = js ''1'', o_includeResolved = None, o_sortBy = None, o_limit = Some 100,
      o_start = Some 200, o_bodyFormat = None\<rparr>"

definition manyComments :: "CommentData list" where
  "manyComments = replicate 250 pageComment @ [inlineComment]"

text \<open>
  Three inline comments with a footer comment between them, out of order; a request
  for the second entry of the listing; and a collation that compares the first code
  units of two strings.
\<close>

definition inlineWithId :: "jsstring \<Rightarrow> CommentData" where
  "inlineWithId i = inlineComment\<lparr>cd_id := i\<rparr>"

definition fewComments :: "CommentData list" where
  "fewComments = [inlineWithId (js ''30''), inlineWithId (js ''10''), pageComment, inlineWithId (js ''20'')]"

definition secondEntryOptions :: ListInlineCommentsOptions where
  "secondEntryOptions =
     \<lparr>o_pageId = js ''1'', o_includeResolved = None, o_sortBy = Some created, o_limit = Some 1,
      o_start = Some 1, o_bodyFormat = None\<rparr>"

definition firstUnit :: "jsstring \<Rightarrow> int" where
  "firstUnit s = (case s of [] \<Rightarrow> 0 | c # _ \<Rightarrow> uint c)"

definition firstUnitCompare :: "jsstring \<Rightarrow> jsstring \<Rightarrow> int" where
  "firstUnitCompare a b = firstUnit a - firstUnit b"

section \<open>Clause escaper: what it changes\<close>

lemma slice_strip_ends: "sliceJS (a # xs @ [b]) 1 (- 1) = xs"
  by (simp add: sliceJS_def Let_def)

lemma escapeCqlValue_chars: "escapeCqlValue v = quoteJSONChars v"
  by (simp add: escapeCqlValue_def JSON_stringify_def slice_strip_ends)

lemma quoteCodeUnit_plain:
  assumes "0x20 \<le> c" "\<not> isLeadingSurrogate c" "\<not> isTrailingSurrogate c"
  shows "quoteCodeUnit c = (if c = backslash \<or> c = dquote then [backslash, c] else [c])"
proof -
  from assms(1) have "\<not> c < 0x20" "c \<noteq> 0x08" "c \<noteq> 0x09" "c \<noteq> 0x0A" "c \<noteq> 0x0C" "c \<noteq> 0x0D"
    by (auto simp: not_less)
  with assms(2,3) show ?thesis
    by (simp add: quoteCodeUnit_def)
qed

lemma surrogate_not_special:
  "isLeadingSurrogate c \<or> isTrailingSurrogate c \<Longrightarrow> c \<noteq> backslash \<and> c \<noteq> dquote"
  by (auto simp: isLeadingSurrogate_def isTrailingSurrogate_def backslash_def dquote_def)

lemma quoteJSONChars_plain:
  "noControl s \<Longrightarrow> noLoneSurrogate s \<Longrightarrow> quoteJSONChars s = escapeQuoteAndBackslash s"
proof (induction s rule: quoteJSONChars.induct)
  case 1
  show ?case by (simp add: escapeQuoteAndBackslash_def)
next
  case (2 c)
  then show ?case
    by (simp add: escapeQuoteAndBackslash_def noControl_def quoteCodeUnit_plain)
next
  case (3 c d cs)
  show ?case
  proof (cases "isLeadingSurrogate c \<and> isTrailingSurrogate d")
    case True
    with 3 have "quoteJSONChars cs = escapeQuoteAndBackslash cs"
      by (simp add: noControl_def)
    with True show ?thesis
      using surrogate_not_special [of c] surrogate_not_special [of d]
      by (simp add: escapeQuoteAndBackslash_def)
  next
    case False
    with "3.prems" have p: "\<not> isLeadingSurrogate c" "\<not> isTrailingSurrogate c" "noLoneSurrogate (d # cs)"
      by auto
    from "3.prems" have c: "0x20 \<le> c" "noControl (d # cs)" by (simp_all add: noControl_def)
    from False p c "3.IH"(2) have ih: "quoteJSONChars (d # cs) = escapeQuoteAndBackslash (d # cs)"
      by blast
    from False have e1: "quoteJSONChars (c # d # cs) = quoteCodeUnit c @ quoteJSONChars (d # cs)"
      by auto
    have e2: "escapeQuoteAndBackslash (c # d # cs)
                = (if c = backslash \<or> c = dquote then [backslash, c] else [c])
                  @ escapeQuoteAndBackslash (d # cs)"
      by (simp add: escapeQuoteAndBackslash_def)
    show ?thesis
      unfolding e1 e2 ih quoteCodeUnit_plain [OF c(1) p(1) p(2)] ..
  qed
qed

lemma control_escaped:
  assumes "c < 0x20"
  shows "hd (escapeCqlValue [c]) = backslash \<and> escapeCqlValue [c] \<noteq> [c]"
proof -
  from assms have "c \<noteq> backslash" by (auto simp: backslash_def)
  then show ?thesis using assms
    by (auto simp add: escapeCqlValue_chars quoteCodeUnit_def UnicodeEscape_def)
qed

text \<open>
  Claim C9, as amended. The claim says that the escaper changes backslashes and double
  quotes only, whatever the input. The escaper is \<open>JSON.stringify\<close> without its outer
  quotes, so that holds on every string without control characters below U+0020 and
  without unpaired surrogates (case, spaces and everything else are copied), and the
  empty string gives the empty string. A control character is not copied: its escape
  starts with a backslash.
\<close>

theorem escaper_changes:
  "escapeCqlValue [] = []
   \<and> (noControl s \<and> noLoneSurrogate s \<longrightarrow> escapeCqlValue s = escapeQuoteAndBackslash s)
   \<and> (c < 0x20 \<longrightarrow> hd (escapeCqlValue [c]) = backslash \<and> escapeCqlValue [c] \<noteq> [c])"
  using quoteJSONChars_plain [of s] control_escaped [of c]
  by (simp add: escapeCqlValue_chars)

text \<open>
  Witness for C9: a string with a space, capitals, two double quotes, a backslash and a
  surrogate pair, and the tab character.
\<close>

theorem escaper_changes_witness:
  "noControl (js ''a \"B\"'' @ [backslash, 0xD83D, 0xDE00]) \<and> noLoneSurrogate (js ''a \"B\"'' @ [backslash, 0xD83D, 0xDE00])
   \<and> escapeCqlValue (js ''a \"B\"'' @ [backslash, 0xD83D, 0xDE00])
       = js ''a '' @ [backslash] @ js ''\"B'' @ [backslash] @ js ''\"'' @ [backslash, backslash, 0xD83D, 0xDE00]
   \<and> (0x09 :: 16 word) < 0x20 \<and> escapeCqlValue [0x09] = [backslash, 0x74]"
  using escaper_changes [of "js ''a \"B\"'' @ [backslash, 0xD83D, 0xDE00]" "0x09"]
  by (simp add: js_def noControl_def isLeadingSurrogate_def isTrailingSurrogate_def
        escapeQuoteAndBackslash_def backslash_def dquote_def escapeCqlValue_chars quoteCodeUnit_def)

text \<open>
  Counterexample to C9 as stated: the one-character string holding a line feed is
  turned into a backslash followed by \<open>n\<close>, while the claim leaves it unchanged.
\<close>

theorem escaper_newline_counterexample:
  "escapeCqlValue [0x0A] = [backslash, 0x6E] \<and> escapeCqlValue [0x0A] \<noteq> escapeQuoteAndBackslash [0x0A]"
  by (simp add: escapeCqlValue_chars quoteCodeUnit_def escapeQuoteAndBackslash_def backslash_def dquote_def)

section \<open>Clause escaper: reading the literal back\<close>





section \<open>Federated search: the query of each category\<close>

lemma foldl_snoc_map: "foldl (\<lambda>acc x. acc @ [f x]) init xs = init @ map f xs"
  by (induction xs arbitrary: init) simp_all

lemma typeSpecificClauses_list:
  \<open>typeSpecificClauses ty opts =
     [js ''type = '' @ SECTION_TO_CQL_TYPE ty, js ''text ~ "'' @ escapeCqlValue (n_query opts) @ js ''"'']
     @ (case n_spaceKey opts of
          Some k \<Rightarrow> if k \<noteq> [] \<and> ty \<noteq> Spaces then [js ''space = "'' @ escapeCqlValue k @ js ''"''] else []
        | None \<Rightarrow> [])
     @ (case n_labels opts of
          Some ls \<Rightarrow> if ty = Pages \<or> ty = BlogPosts
                     then map (\<lambda>l. js ''label = "'' @ escapeCqlValue l @ js ''"'') ls else []
        | None \<Rightarrow> [])\<close>
  by (simp add: typeSpecificClauses_def Let_def push_def foldl_snoc_map truthy_def split: option.splits)

lemma universal_calls:
  "truthy (u_query options) \<Longrightarrow> trim (the (u_query options)) \<noteq> [] \<Longrightarrow>
   fst (universalSearchGather settleOrder searchService options)
     = map (\<lambda>ty. searchParamsForType ty (normalizeOptions options))
         (includedTypesOf (normalizeOptions options))"
  by (simp add: universalSearchGather_def Let_def split: sum.splits)

text \<open>
  Claim C1. The query \<open>buildTypeSpecificCql\<close> builds for a category is the type clause
  with the category's literal, then the text clause with the escaped query, then the
  space clause when a space key is supplied and the category is not spaces, then one
  label clause per label when labels are supplied and the category is pages or blog
  posts, joined with \<open>AND\<close> in that order. A federated search whose query is not
  blank sends exactly these queries, one per enabled category, built from the
  normalized (trimmed) options.
\<close>

theorem category_query_exact:
  \<open>buildTypeSpecificCql ty opts =
     join (js '' AND '')
       ([js ''type = '' @ SECTION_TO_CQL_TYPE ty, js ''text ~ "'' @ escapeCqlValue (n_query opts) @ js ''"'']
        @ (case n_spaceKey opts of
             Some k \<Rightarrow> if k \<noteq> [] \<and> ty \<noteq> Spaces then [js ''space = "'' @ escapeCqlValue k @ js ''"''] else []
           | None \<Rightarrow> [])
        @ (case n_labels opts of
             Some ls \<Rightarrow> if ty = Pages \<or> ty = BlogPosts
                        then map (\<lambda>l. js ''label = "'' @ escapeCqlValue l @ js ''"'') ls else []
           | None \<Rightarrow> []))
   \<and> (truthy (u_query options) \<and> trim (the (u_query options)) \<noteq> [] \<longrightarrow>
        map sp_cql (fst (universalSearchGather settleOrder searchService options))
          = map (\<lambda>ty. buildTypeSpecificCql ty (normalizeOptions options))
              (includedTypesOf (normalizeOptions options)))\<close>
  by (simp add: buildTypeSpecificCql_def typeSpecificClauses_list universal_calls
        searchParamsForType_def comp_def)

lemma exampleUniversalArgs_normalized:
  \<open>normalizeOptions exampleUniversalArgs =
     \<lparr>n_query = js ''A"B'', n_spaceKey = Some (js ''DEV''), n_labels = Some [js ''x'', js ''y''],
      includeSpaces = True, includePages = True, includeBlogPosts = False,
      includeAttachments = False, includeComments = False, limitPerType = 5\<rparr>\<close>
  by (simp add: normalizeOptions_def exampleUniversalArgs_def trim_def isWhiteSpace_def js_def
        orTrue_def DEFAULT_LIMIT_PER_TYPE_def)

text \<open>
  Witness for C1: the example search. The query is trimmed to \<open>A"B\<close>; the spaces
  query has no space and no label clause, the pages query has all of them.
\<close>

theorem category_query_exact_witness:
  \<open>truthy (u_query exampleUniversalArgs) \<and> trim (the (u_query exampleUniversalArgs)) \<noteq> []
   \<and> map sp_cql (fst (universalSearchGather [] emptySearchService exampleUniversalArgs))
       = [js ''type = space AND text ~ "A'' @ [backslash] @ js ''"B"'',
          js ''type = page AND text ~ "A'' @ [backslash]
            @ js ''"B" AND space = "DEV" AND label = "x" AND label = "y"'']\<close>
proof -
  have q: "truthy (u_query exampleUniversalArgs) \<and> trim (the (u_query exampleUniversalArgs)) \<noteq> []"
    by (simp add: exampleUniversalArgs_def truthy_def trim_def isWhiteSpace_def js_def)
  have e: \<open>escapeCqlValue (js ''A"B'') = js ''A'' @ [backslash] @ js ''"B''\<close>
    by (simp add: escapeCqlValue_chars js_def quoteCodeUnit_def isLeadingSurrogate_def
          isTrailingSurrogate_def dquote_def backslash_def)
  have x: "escapeCqlValue (js ''x'') = js ''x''" "escapeCqlValue (js ''y'') = js ''y''"
     "escapeCqlValue (js ''DEV'') = js ''DEV''"
    by (simp_all add: escapeCqlValue_chars js_def quoteCodeUnit_def isLeadingSurrogate_def
          isTrailingSurrogate_def dquote_def backslash_def)
  have i: "includedTypesOf (normalizeOptions exampleUniversalArgs) = [Spaces, Pages]"
    by (simp add: exampleUniversalArgs_normalized includedTypesOf_def)
  from q category_query_exact [of _ _ exampleUniversalArgs "[]" emptySearchService]
  have "map sp_cql (fst (universalSearchGather [] emptySearchService exampleUniversalArgs))
          = map (\<lambda>ty. buildTypeSpecificCql ty (normalizeOptions exampleUniversalArgs))
              (includedTypesOf (normalizeOptions exampleUniversalArgs))"
    by blast
  also have "\<dots> = [buildTypeSpecificCql Spaces (normalizeOptions exampleUniversalArgs),
                   buildTypeSpecificCql Pages (normalizeOptions exampleUniversalArgs)]"
    by (simp add: i)
  also have \<open>\<dots> = [js ''type = space AND text ~ "A'' @ [backslash] @ js ''"B"'',
          js ''type = page AND text ~ "A'' @ [backslash]
            @ js ''"B" AND space = "DEV" AND label = "x" AND label = "y"'']\<close>
    unfolding category_query_exact [THEN conjunct1] exampleUniversalArgs_normalized
    by (simp add: e x) (simp add: js_def)
  finally show ?thesis using q by simp
qed

section \<open>The form of the clauses\<close>

lemma quotedValueClause_intro:
  assumes "h \<in> set valueHeads"
  shows "quotedValueClause (h @ v @ [dquote])"
  unfolding quotedValueClause_def quotedWith_def list_ex_iff
  using assms by (intro bexI [of _ h]) simp_all

lemma js_dquote: \<open>js ''"'' = [dquote]\<close>
  by (simp add: js_def dquote_def)

lemma heads_mem:
  \<open>js ''title ~ "'' \<in> set valueHeads\<close> \<open>js ''text ~ "'' \<in> set valueHeads\<close>
  \<open>js ''space = "'' \<in> set valueHeads\<close> \<open>js ''label = "'' \<in> set valueHeads\<close>
  by (simp_all add: valueHeads_def)

lemmas quoted_simps =
  quotedValueClause_intro [OF heads_mem(1)] quotedValueClause_intro [OF heads_mem(2)]
  quotedValueClause_intro [OF heads_mem(3)] quotedValueClause_intro [OF heads_mem(4)]

lemma label_clauses_quoted:
  \<open>list_all (\<lambda>c. quotedValueClause c \<or> Q c)
     (map (\<lambda>l. js ''label = "'' @ escapeCqlValue l @ [dquote]) ls)\<close>
  by (induction ls) (simp_all add: quoted_simps)

lemma cqlParts_list:
  \<open>cqlParts options =
     (case title options of
        Some t \<Rightarrow> if t \<noteq> [] then [js ''title ~ "'' @ escapeCqlValue t @ js ''"''] else []
      | None \<Rightarrow> [])
     @ (case spaceKey options of
          Some k \<Rightarrow> if k \<noteq> [] then [js ''space = "'' @ escapeCqlValue k @ js ''"''] else []
        | None \<Rightarrow> [])
     @ (case labels options of
          Some ls \<Rightarrow> map (\<lambda>l. js ''label = "'' @ escapeCqlValue l @ js ''"'') ls
        | None \<Rightarrow> [])
     @ (case contentType options of
          Some ct \<Rightarrow> if ct \<noteq> [] then [js ''type = '' @ ct] else []
        | None \<Rightarrow> [])
     @ (case query options of
          Some q \<Rightarrow> if q \<noteq> [] then [js ''text ~ "'' @ escapeCqlValue q @ js ''"''] else []
        | None \<Rightarrow> [])\<close>
  by (simp add: cqlParts_def Let_def push_def foldl_snoc_map comp_def split: option.splits)

lemma section_type_unquoted: "dquote \<notin> set (js ''type = '' @ SECTION_TO_CQL_TYPE ty)"
  by (cases ty) (simp_all add: js_def dquote_def)

text \<open>
  Claim C8, as amended. Every clause the two synthesizers emit for the title, the
  space, a label or the free text is the field, its operator (\<open>~\<close> for title and text,
  \<open>=\<close> for space and label) and a value between double quotes. The content-type
  clause is not of that form: whenever a content type is given, \<open>buildCqlQuery\<close> emits
  \<open>type = \<close> followed by the content type as it is, with no quotes added, and
  \<open>buildTypeSpecificCql\<close> always starts with \<open>type = \<close> followed by the category's
  literal, which holds no double quote. There is no other clause.
\<close>

theorem clause_forms:
  \<open>list_all (\<lambda>c. quotedValueClause c
                \<or> (case contentType options of Some ct \<Rightarrow> c = js ''type = '' @ ct | None \<Rightarrow> False))
      (cqlParts options)
   \<and> (case contentType options of
        Some ct \<Rightarrow> ct \<noteq> [] \<longrightarrow> js ''type = '' @ ct \<in> set (cqlParts options)
      | None \<Rightarrow> True)
   \<and> list_all (\<lambda>c. quotedValueClause c \<or> c = js ''type = '' @ SECTION_TO_CQL_TYPE ty)
      (typeSpecificClauses ty opts)
   \<and> hd (typeSpecificClauses ty opts) = js ''type = '' @ SECTION_TO_CQL_TYPE ty
   \<and> dquote \<notin> set (js ''type = '' @ SECTION_TO_CQL_TYPE ty)\<close>
proof -
  have \<open>list_all (\<lambda>c. quotedValueClause c
                \<or> (case contentType options of Some ct \<Rightarrow> c = js ''type = '' @ ct | None \<Rightarrow> False))
      (cqlParts options)\<close>
    unfolding cqlParts_list
    by (simp add: js_dquote quoted_simps label_clauses_quoted split: option.splits)
  moreover have \<open>case contentType options of
        Some ct \<Rightarrow> ct \<noteq> [] \<longrightarrow> js ''type = '' @ ct \<in> set (cqlParts options)
      | None \<Rightarrow> True\<close>
    unfolding cqlParts_list by (simp split: option.splits)
  moreover have \<open>list_all (\<lambda>c. quotedValueClause c \<or> c = js ''type = '' @ SECTION_TO_CQL_TYPE ty)
      (typeSpecificClauses ty opts)\<close>
    unfolding typeSpecificClauses_list
    by (simp add: js_dquote quoted_simps label_clauses_quoted split: option.splits)
  moreover have \<open>hd (typeSpecificClauses ty opts) = js ''type = '' @ SECTION_TO_CQL_TYPE ty\<close>
    unfolding typeSpecificClauses_list by simp
  ultimately show ?thesis
    using section_type_unquoted [of ty] by blast
qed

text \<open>
  Counterexample to C8 as stated: with the content type \<open>page\<close> as only filter, the
  only clause is \<open>type = page\<close>, which has no double quote.
\<close>

theorem unquoted_type_clause_counterexample:
  \<open>cqlParts \<lparr>title = None, spaceKey = None, labels = None, contentType = Some (js ''page''),
             query = None, cql = None, limit = None, cursor = None\<rparr> = [js ''type = page'']
   \<and> \<not> list_all quotedClause
        (cqlParts \<lparr>title = None, spaceKey = None, labels = None, contentType = Some (js ''page''),
                   query = None, cql = None, limit = None, cursor = None\<rparr>)\<close>
  by (simp add: cqlParts_list js_def quotedClause_def quotedWith_def clauseHeads_def
        valueHeads_def dquote_def)

text \<open>
  Witness for C8: the clauses of the two example requests. The request with content
  type \<open>page\<close> has the clause \<open>type = page\<close> among its five clauses.
\<close>

theorem clause_forms_witness:
  \<open>contentType exampleSearchArgs = Some (js ''page'') \<and> js ''page'' \<noteq> []
   \<and> list_all (\<lambda>c. quotedValueClause c \<or> c = js ''type = '' @ js ''page'') (cqlParts exampleSearchArgs)
   \<and> js ''type = '' @ js ''page'' \<in> set (cqlParts exampleSearchArgs)
   \<and> length (cqlParts exampleSearchArgs) = 5
   \<and> list_all (\<lambda>c. quotedValueClause c \<or> c = js ''type = '' @ js ''page'')
        (typeSpecificClauses Pages (normalizeOptions exampleUniversalArgs))
   \<and> hd (typeSpecificClauses Pages (normalizeOptions exampleUniversalArgs)) = js ''type = '' @ js ''page''\<close>
proof -
  have c: "contentType exampleSearchArgs = Some (js ''page'')" "js ''page'' \<noteq> []"
    by (simp_all add: exampleSearchArgs_def js_def)
  have n: "length (cqlParts exampleSearchArgs) = 5"
    by (simp add: cqlParts_list exampleSearchArgs_def js_def)
  from clause_forms [of exampleSearchArgs Pages "normalizeOptions exampleUniversalArgs"] c n
  show ?thesis by simp
qed

section \<open>Search without criteria\<close>

lemma applyDefaults_fields:
  "title (applyDefaults options d) = title options"
  "spaceKey (applyDefaults options d) = spaceKey options"
  "labels (applyDefaults options d) = labels options"
  "contentType (applyDefaults options d) = contentType options"
  "query (applyDefaults options d) = query options"
  "cql (applyDefaults options d) = cql options"
  by (simp_all add: applyDefaults_def split: option.splits)

lemma buildCqlQuery_no_criteria:
  assumes "title options = None" "spaceKey options = None" "labels options = None"
    "contentType options = None" "query options = None" "cql options = None"
  shows "buildCqlQuery options = []"
  using assms by (simp add: buildCqlQuery_def cqlParts_list)

text \<open>
  Claim C3. When no filter field is set and there is no raw CQL, \<open>buildCqlQuery\<close>
  returns the empty string, and \<open>search\<close> returns the advisory message without a
  single call to the remote query executor.
\<close>

theorem no_criteria_advisory:
  assumes "title options = None" "spaceKey options = None" "labels options = None"
    "contentType options = None" "query options = None" "cql options = None"
  shows "buildCqlQuery options = []
    \<and> search DEFAULT_PAGE_SIZE searchService renderResults handleControllerError options
        = ([], Inr \<lparr>content = js ''Please provide search criteria (CQL, title, space, etc.).''\<rparr>)"
proof -
  have "buildCqlQuery (applyDefaults options DEFAULT_PAGE_SIZE) = []"
    using assms by (intro buildCqlQuery_no_criteria) (simp_all add: applyDefaults_fields)
  then show ?thesis
    using assms by (simp add: search_def Let_def buildCqlQuery_no_criteria)
qed

text \<open>
  Witness for C3: a request that sets a limit and a cursor and nothing else.
\<close>

theorem no_criteria_advisory_witness:
  "title noCriteriaArgs = None \<and> spaceKey noCriteriaArgs = None \<and> labels noCriteriaArgs = None
   \<and> contentType noCriteriaArgs = None \<and> query noCriteriaArgs = None \<and> cql noCriteriaArgs = None
   \<and> buildCqlQuery noCriteriaArgs = []
   \<and> fst (search 25 emptySearchService (\<lambda>q page. q) (\<lambda>e. e) noCriteriaArgs) = []"
proof -
  have f: "title noCriteriaArgs = None" "spaceKey noCriteriaArgs = None"
    "labels noCriteriaArgs = None" "contentType noCriteriaArgs = None"
    "query noCriteriaArgs = None" "cql noCriteriaArgs = None"
    by (simp_all add: noCriteriaArgs_def)
  from no_criteria_advisory [OF f, of 25 emptySearchService "\<lambda>q page. q" "\<lambda>e. e"] f
  show ?thesis by simp
qed

section \<open>Federated search: failure and the result map\<close>

lemma Promise_all_rejects:
  assumes "i < length promises" "promises ! i = Inl e"
  shows "\<exists>e' j. Promise_all settleOrder promises = Inl e' \<and> j < length promises \<and> promises ! j = Inl e'"
proof -
  define f where "f = (\<lambda>i. if i < length promises
                             then (case promises ! i of Inl e \<Rightarrow> [e] | Inr _ \<Rightarrow> [])
                             else [])"
  define L where "L = concat (map f (settleOrder @ [0..<length promises]))"
  have mem: "\<And>x. x \<in> set L \<Longrightarrow> \<exists>j. j < length promises \<and> promises ! j = Inl x"
  proof -
    fix x assume "x \<in> set L"
    then obtain j where "x \<in> set (f j)" by (auto simp: L_def)
    then have "j < length promises \<and> promises ! j = Inl x"
      unfolding f_def by (cases "j < length promises"; cases "promises ! j") simp_all
    then show "\<exists>j. j < length promises \<and> promises ! j = Inl x" by blast
  qed
  from assms have "e \<in> set (f i)" by (simp add: f_def)
  with assms(1) have "e \<in> set L" by (auto simp: L_def)
  then obtain e' rest where L: "L = e' # rest" by (cases L) auto
  then have "e' \<in> set L" by simp
  from mem [OF this] obtain j where j: "j < length promises" "promises ! j = Inl e'" by blast
  have "Promise_all settleOrder promises = Inl e'"
    unfolding Promise_all_def f_def [symmetric] L_def [symmetric] by (simp add: L)
  with j show ?thesis by blast
qed

lemma collect_values:
  "\<forall>p \<in> set ps. \<exists>v. p = Inr v \<Longrightarrow>
   map Inr (concat (map (\<lambda>p. case p of Inl _ \<Rightarrow> [] | Inr v \<Rightarrow> [v]) ps)) = ps"
  by (induction ps) auto

lemma Promise_all_fulfils:
  assumes "Promise_all settleOrder promises = Inr vs"
  shows "promises = map Inr vs"
proof -
  define f where "f = (\<lambda>i. if i < length promises
                             then (case promises ! i of Inl e \<Rightarrow> [e] | Inr _ \<Rightarrow> [])
                             else [])"
  define L where "L = concat (map f (settleOrder @ [0..<length promises]))"
  from assms have L: "L = []" and vs: "vs = concat (map (\<lambda>p. case p of Inl _ \<Rightarrow> [] | Inr v \<Rightarrow> [v]) promises)"
    unfolding Promise_all_def f_def [symmetric] L_def [symmetric]
    by (auto split: list.splits)
  have "\<forall>p \<in> set promises. \<exists>v. p = Inr v"
  proof
    fix p assume "p \<in> set promises"
    then obtain i where i: "i < length promises" "promises ! i = p" by (auto simp: in_set_conv_nth)
    from L have "f i = []" using i(1) by (auto simp: L_def)
    with i show "\<exists>v. p = Inr v" by (cases p) (auto simp: f_def)
  qed
  from collect_values [OF this] show ?thesis by (simp add: vs)
qed

lemma results_by_type:
  "foldl (\<lambda>m (ty, rs). m(ty \<mapsto> rs)) m0 (map (\<lambda>ty. (ty, g ty)) tys) k
     = (if k \<in> set tys then Some (g k) else m0 k)"
  by (induction tys arbitrary: m0) auto

lemma emptyResultsByType_total: "emptyResultsByType k = Some []"
  by (cases k) (simp_all add: emptyResultsByType_def)

lemma tagged_promises:
  assumes "map (\<lambda>ty. case exec ty of Inl e \<Rightarrow> Inl e | Inr rs \<Rightarrow> Inr (ty, rs)) tys = map Inr vs"
  shows "vs = map (\<lambda>ty. (ty, case exec ty of Inl _ \<Rightarrow> [] | Inr rs \<Rightarrow> rs)) tys
         \<and> (\<forall>ty \<in> set tys. \<exists>rs. exec ty = Inr rs)"
  using assms
proof (induction tys arbitrary: vs)
  case Nil
  then show ?case by simp
next
  case (Cons ty tys)
  then obtain v vs' where vs: "vs = v # vs'" by (cases vs) auto
  with Cons.prems have h: "(case exec ty of Inl e \<Rightarrow> Inl e | Inr rs \<Rightarrow> Inr (ty, rs)) = Inr v"
    and t: "map (\<lambda>ty. case exec ty of Inl e \<Rightarrow> Inl e | Inr rs \<Rightarrow> Inr (ty, rs)) tys = map Inr vs'"
    by simp_all
  from h obtain rs where "exec ty = Inr rs" "v = (ty, rs)" by (cases "exec ty") auto
  with Cons.IH [OF t] vs show ?case by simp
qed

lemma executeSearchForType_Inl:
  "executeSearchForType searchService ty n = Inl e
     \<longleftrightarrow> searchService (searchParamsForType ty n) = Inl e"
  by (simp add: executeSearchForType_def split: sum.splits)

lemma executeSearchForType_Inr:
  "executeSearchForType searchService ty n = Inr rs
     \<longleftrightarrow> (\<exists>response. searchService (searchParamsForType ty n) = Inr response \<and> rs = results response)"
  by (auto simp add: executeSearchForType_def split: sum.splits)

text \<open>
  Claim C5. In a federated search (query not blank) where the call of at least one
  enabled category fails, the whole operation fails: what is thrown is the error of one
  failing category, passed through the status-400 enrichment and the controller's
  error handler, and no result map is built, whatever the other categories returned.
\<close>

theorem category_failure_aborts:
  assumes "truthy (u_query options)" "trim (the (u_query options)) \<noteq> []"
    and "ty \<in> set (includedTypesOf (normalizeOptions options))"
    and "searchService (searchParamsForType ty (normalizeOptions options)) = Inl e"
  shows "\<exists>err ty'. ty' \<in> set (includedTypesOf (normalizeOptions options))
           \<and> searchService (searchParamsForType ty' (normalizeOptions options)) = Inl err
           \<and> snd (universalSearchGather settleOrder searchService options) = Rejected err
           \<and> snd (universalSearch settleOrder searchService formatUniversalSearchResults
                    handleControllerError options)
               = Inl (handleControllerError (enrichUniversal400 err))"
proof -
  define n where "n = normalizeOptions options"
  define tys where "tys = includedTypesOf n"
  define promises where "promises =
    map (\<lambda>ty. case executeSearchForType searchService ty n of
                 Inl error \<Rightarrow> Inl error
               | Inr rs \<Rightarrow> Inr (ty, rs)) tys"
  from assms(3) obtain i where i: "i < length tys" "tys ! i = ty"
    by (auto simp: in_set_conv_nth tys_def n_def)
  from assms(4) have "executeSearchForType searchService ty n = Inl e"
    by (simp add: executeSearchForType_Inl n_def)
  with i have "i < length promises" "promises ! i = Inl e"
    by (simp_all add: promises_def)
  from Promise_all_rejects [OF this, of settleOrder]
  obtain err j where r: "Promise_all settleOrder promises = Inl err"
    and j: "j < length promises" "promises ! j = Inl err" by blast
  from j have jt: "j < length tys" by (simp add: promises_def)
  with j(2) have "executeSearchForType searchService (tys ! j) n = Inl err"
    by (cases "executeSearchForType searchService (tys ! j) n") (simp_all add: promises_def)
  then have f: "searchService (searchParamsForType (tys ! j) n) = Inl err"
    by (simp add: executeSearchForType_Inl)
  from i have ne: "length tys \<noteq> 0" by auto
  have g: "snd (universalSearchGather settleOrder searchService options) = Rejected err"
    using assms(1,2) ne r
    by (simp add: universalSearchGather_def Let_def n_def [symmetric] tys_def [symmetric]
          promises_def [symmetric])
  then have "snd (universalSearch settleOrder searchService formatUniversalSearchResults
                    handleControllerError options)
               = Inl (handleControllerError (enrichUniversal400 err))"
    by (cases "universalSearchGather settleOrder searchService options")
       (simp add: universalSearch_def)
  with g f jt show ?thesis
    unfolding n_def [symmetric] tys_def [symmetric] by (intro exI [of _ err] exI [of _ "tys ! j"]) simp
qed

text \<open>
  Witness for C5: the example search (spaces and pages enabled) against an executor
  that answers the spaces query and rejects the pages query.
\<close>

theorem category_failure_aborts_witness:
  "truthy (u_query exampleUniversalArgs) \<and> trim (the (u_query exampleUniversalArgs)) \<noteq> []
   \<and> Pages \<in> set (includedTypesOf (normalizeOptions exampleUniversalArgs))
   \<and> pagesFailService (searchParamsForType Pages (normalizeOptions exampleUniversalArgs))
       = Inl \<lparr>message = js ''bad query'', statusCode = Some 400\<rparr>
   \<and> emptySearchService (searchParamsForType Spaces (normalizeOptions exampleUniversalArgs))
       = Inr \<lparr>results = [], links_next = None, links_base = None\<rparr>
   \<and> snd (universalSearchGather [] pagesFailService exampleUniversalArgs)
       = Rejected \<lparr>message = js ''bad query'', statusCode = Some 400\<rparr>
   \<and> (\<exists>err. snd (universalSearch [] pagesFailService (\<lambda>input. []) (\<lambda>error. error) exampleUniversalArgs) = Inl err)"
proof -
  let ?n = "normalizeOptions exampleUniversalArgs"
  let ?bad = "\<lparr>message = js ''bad query'', statusCode = Some 400\<rparr>"
  have q: "truthy (u_query exampleUniversalArgs)" "trim (the (u_query exampleUniversalArgs)) \<noteq> []"
    by (simp_all add: exampleUniversalArgs_def truthy_def trim_def isWhiteSpace_def js_def)
  have i: "includedTypesOf ?n = [Spaces, Pages]"
    by (simp add: exampleUniversalArgs_normalized includedTypesOf_def)
  then have m: "Pages \<in> set (includedTypesOf ?n)" by simp
  have c: "take 11 (sp_cql (searchParamsForType Pages ?n)) = js ''type = page''"
      "take 11 (sp_cql (searchParamsForType Spaces ?n)) \<noteq> js ''type = page''"
    by (simp_all add: searchParamsForType_def buildTypeSpecificCql_def typeSpecificClauses_list
          exampleUniversalArgs_normalized js_def)
  then have f: "pagesFailService (searchParamsForType Pages ?n) = Inl ?bad"
    and s: "pagesFailService (searchParamsForType Spaces ?n) = emptySearchService (searchParamsForType Spaces ?n)"
    by (simp_all add: pagesFailService_def)
  from category_failure_aborts [where searchService = pagesFailService and ty = Pages
      and options = exampleUniversalArgs and settleOrder = "[]"
      and formatUniversalSearchResults = "\<lambda>input. []" and handleControllerError = "\<lambda>error. error",
      OF q m f]
  obtain err ty' where r: "ty' \<in> set (includedTypesOf ?n)"
    "pagesFailService (searchParamsForType ty' ?n) = Inl err"
    "snd (universalSearchGather [] pagesFailService exampleUniversalArgs) = Rejected err"
    "snd (universalSearch [] pagesFailService (\<lambda>input. []) (\<lambda>error. error) exampleUniversalArgs)
       = Inl (enrichUniversal400 err)"
    by blast
  from r(1,2) s have "ty' = Pages" by (auto simp: i emptySearchService_def)
  with r(2) f have "err = ?bad" by simp
  with r q m f show ?thesis by (simp add: emptySearchService_def)
qed

text \<open>
  Claim C6. When a federated search succeeds, the result map it hands to the renderer
  has all five category keys; a category that was not enabled maps to the empty
  sequence, and an enabled one to the results of its own call.
\<close>

theorem result_map_total:
  assumes "snd (universalSearchGather settleOrder searchService options) = Gathered input"
  shows "dom (fi_results input) = UNIV
       \<and> (\<forall>k. k \<notin> set (fi_includedTypes input) \<longrightarrow> fi_results input k = Some [])
       \<and> (\<forall>k \<in> set (fi_includedTypes input).
            \<exists>response. searchService (searchParamsForType k (normalizeOptions options)) = Inr response
              \<and> fi_results input k = Some (results response))
       \<and> fi_includedTypes input = includedTypesOf (normalizeOptions options)"
proof -
  define n where "n = normalizeOptions options"
  define tys where "tys = includedTypesOf n"
  define exec where "exec = (\<lambda>ty. executeSearchForType searchService ty n)"
  define promises where "promises =
    map (\<lambda>ty. case executeSearchForType searchService ty n of
                 Inl error \<Rightarrow> Inl error
               | Inr rs \<Rightarrow> Inr (ty, rs)) tys"
  define g where "g = (\<lambda>ty. case exec ty of Inl _ \<Rightarrow> [] | Inr rs \<Rightarrow> rs)"
  have pe: "promises = map (\<lambda>ty. case exec ty of Inl error \<Rightarrow> Inl error | Inr rs \<Rightarrow> Inr (ty, rs)) tys"
    by (simp add: promises_def exec_def)
  from assms obtain vs where p: "Promise_all settleOrder promises = Inr vs"
    and inp: "fi_includedTypes input = tys"
       "fi_results input = foldl (\<lambda>m (ty, rs). m(ty \<mapsto> rs)) emptyResultsByType vs"
    unfolding universalSearchGather_def Let_def n_def [symmetric] tys_def [symmetric]
      promises_def [symmetric]
    by (auto split: if_splits sum.splits)
  from Promise_all_fulfils [OF p] have "promises = map Inr vs" .
  from tagged_promises [OF this [unfolded pe]]
  have vs: "vs = map (\<lambda>ty. (ty, g ty)) tys" and ok: "\<forall>ty \<in> set tys. \<exists>rs. exec ty = Inr rs"
    by (simp_all add: g_def)
  have m: "\<And>k. fi_results input k = (if k \<in> set tys then Some (g k) else Some [])"
    by (simp add: inp(2) vs results_by_type emptyResultsByType_total)
  have "dom (fi_results input) = UNIV" by (auto simp: m)
  moreover have "\<forall>k. k \<notin> set (fi_includedTypes input) \<longrightarrow> fi_results input k = Some []"
    by (simp add: m inp(1))
  moreover have "\<forall>k \<in> set (fi_includedTypes input).
            \<exists>response. searchService (searchParamsForType k n) = Inr response
              \<and> fi_results input k = Some (results response)"
  proof
    fix k assume "k \<in> set (fi_includedTypes input)"
    then have k: "k \<in> set tys" by (simp add: inp(1))
    with ok obtain rs where rs: "exec k = Inr rs" by blast
    then obtain response where "searchService (searchParamsForType k n) = Inr response"
      "rs = results response"
      by (auto simp: exec_def executeSearchForType_Inr)
    with k rs show "\<exists>response. searchService (searchParamsForType k n) = Inr response
              \<and> fi_results input k = Some (results response)"
      by (simp add: m g_def)
  qed
  ultimately show ?thesis
    unfolding n_def [symmetric] using inp(1) by (simp add: tys_def)
qed

text \<open>
  Witness for C6: only pages enabled. Pages maps to the one hit, the other four keys to
  the empty sequence.
\<close>

theorem result_map_total_witness:
  "\<exists>input. snd (universalSearchGather [] oneHitService onlyPagesArgs) = Gathered input
     \<and> fi_includedTypes input = [Pages]
     \<and> dom (fi_results input) = UNIV
     \<and> fi_results input Pages = Some [exampleHit]
     \<and> fi_results input Spaces = Some [] \<and> fi_results input BlogPosts = Some []
     \<and> fi_results input Attachments = Some [] \<and> fi_results input Comments = Some []"
proof -
  have i: "includedTypesOf (normalizeOptions onlyPagesArgs) = [Pages]"
    by (simp add: normalizeOptions_def onlyPagesArgs_def includedTypesOf_def orTrue_def)
  have q: "truthy (u_query onlyPagesArgs)" "trim (the (u_query onlyPagesArgs)) \<noteq> []"
    by (simp_all add: onlyPagesArgs_def truthy_def trim_def isWhiteSpace_def js_def)
  have "\<exists>input. snd (universalSearchGather [] oneHitService onlyPagesArgs) = Gathered input"
    using q by (simp add: universalSearchGather_def Let_def i Promise_all_def
        executeSearchForType_def oneHitService_def)
  then obtain input where g: "snd (universalSearchGather [] oneHitService onlyPagesArgs) = Gathered input" ..
  from result_map_total [where searchService = oneHitService, OF g] i
  have "dom (fi_results input) = UNIV" "fi_includedTypes input = [Pages]"
    "\<forall>k. k \<noteq> Pages \<longrightarrow> fi_results input k = Some []"
    "\<exists>response. oneHitService (searchParamsForType Pages (normalizeOptions onlyPagesArgs)) = Inr response
              \<and> fi_results input Pages = Some (results response)"
    by simp_all
  with g show ?thesis by (intro exI [of _ input]) (auto simp: oneHitService_def)
qed

section \<open>Hybrid title lookup\<close>

lemma fallback_trace:
  assumes "t \<noteq> []"
  shows \<open>fst (tryPartialTitleSearch spacesList searchService now (titleParams t c))
          = [SearchCall \<lparr>sp_cql = js ''title ~ "'' @ t @ js ''*" AND type = "page"'',
                          sp_limit = Some 25, sp_cursor = None, sp_excerpt = None,
                          sp_includeArchivedSpaces = None\<rparr>]\<close>
  using assms
  by (simp add: tryPartialTitleSearch_def titleParams_def truthy_def push_def Let_def js_def
      split: sum.splits)

lemma listPages_fallback_trace:
  assumes "t \<noteq> []"
  shows \<open>fst (listPages True authMissing emptyPrimary spacesList searchService now (titleParams t None))
          = [FetchPages (titleParams t None),
             SearchCall \<lparr>sp_cql = js ''title ~ "'' @ t @ js ''*" AND type = "page"'',
                          sp_limit = Some 25, sp_cursor = None, sp_excerpt = None,
                          sp_includeArchivedSpaces = None\<rparr>]\<close>
proof -
  have c: "truthy (lp_title (titleParams t None))" "\<not> truthy (lp_cursor (titleParams t None))"
    using assms by (simp_all add: titleParams_def truthy_def)
  obtain calls page where p: "tryPartialTitleSearch spacesList searchService now (titleParams t None) = (calls, page)"
    by (cases "tryPartialTitleSearch spacesList searchService now (titleParams t None)")
  with fallback_trace [OF assms, of spacesList searchService now None]
  have "calls = [SearchCall \<lparr>sp_cql = js ''title ~ \"'' @ t @ js ''*\" AND type = \"page\"'',
                          sp_limit = Some 25, sp_cursor = None, sp_excerpt = None,
                          sp_includeArchivedSpaces = None\<rparr>]"
    by simp
  then show ?thesis
    using c p by (simp add: listPages_def emptyPrimary_def emptyPage_def)
qed

text \<open>
  Claim C2 fails on the code. For the title \<open>A"B\<close>, an empty primary page and no
  cursor, the fallback is executed with the clause \<open>title ~ "A"B*"\<close>: the title is put
  between the quotes as it is. The clause of the claim, with the title passed through
  the escaper, is \<open>title ~ "A\<close>, backslash, \<open>"B*"\<close> and is not what the query starts
  with. For the title \<open>Balance\<close>, which needs no escaping, the clause is
  \<open>title ~ "Balance*"\<close> as the claim says.
\<close>

theorem fallback_title_unescaped:
  \<open>fst (listPages True authMissing emptyPrimary spacesList searchService now
          (titleParams (js ''A"B'') None))
     = [FetchPages (titleParams (js ''A"B'') None),
        SearchCall \<lparr>sp_cql = js ''title ~ "A"B*" AND type = "page"'',
                     sp_limit = Some 25, sp_cursor = None, sp_excerpt = None,
                     sp_includeArchivedSpaces = None\<rparr>]
   \<and> js ''title ~ "'' @ escapeCqlValue (js ''A"B'') @ js ''*"''
       = js ''title ~ "A'' @ [backslash] @ js ''"B*"''
   \<and> take 15 (js ''title ~ "A"B*" AND type = "page"'')
       \<noteq> js ''title ~ "'' @ escapeCqlValue (js ''A"B'') @ js ''*"''
   \<and> fst (listPages True authMissing emptyPrimary spacesList searchService now
          (titleParams (js ''Balance'') None))
     = [FetchPages (titleParams (js ''Balance'') None),
        SearchCall \<lparr>sp_cql = js ''title ~ "Balance*" AND type = "page"'',
                     sp_limit = Some 25, sp_cursor = None, sp_excerpt = None,
                     sp_includeArchivedSpaces = None\<rparr>]\<close>
proof -
  have e: \<open>escapeCqlValue (js ''A"B'') = js ''A'' @ [backslash] @ js ''"B''\<close>
    by (simp add: escapeCqlValue_chars js_def quoteCodeUnit_def isLeadingSurrogate_def
          isTrailingSurrogate_def dquote_def backslash_def)
  have a: \<open>js ''A"B'' \<noteq> []\<close> "js ''Balance'' \<noteq> []" by (simp_all add: js_def)
  show ?thesis
    unfolding listPages_fallback_trace [OF a(1)] listPages_fallback_trace [OF a(2)] e
    by (simp add: js_def backslash_def)
qed

text \<open>
  Claim C4. When the request carries a cursor, \<open>list\<close> makes no fallback query,
  whatever the primary request returns, and a well-formed primary page is returned as
  it is, also when it has no record.
\<close>

theorem cursor_blocks_fallback:
  assumes "truthy (lp_cursor params)"
  shows "\<not> list_ex isSearchCall
             (fst (listPages credentials authMissing fetchAtlassian spacesList searchService now params))
       \<and> (credentials \<and> fetchAtlassian params = Inr (WellFormed page) \<longrightarrow>
            listPages credentials authMissing fetchAtlassian spacesList searchService now params
              = ([FetchPages params], Inr page))"
  using assms
  by (cases "fetchAtlassian params")
     (auto simp add: listPages_def split: sum.splits rawData.splits)

text \<open>
  Witness for C4: title \<open>Balance\<close>, an empty primary page and an executor that would
  find a page. With the cursor \<open>abc\<close> the empty primary page comes back after the one
  primary request; without a cursor the fallback runs and its page 42 is returned.
\<close>

theorem cursor_blocks_fallback_witness:
  "truthy (lp_cursor (titleParams (js ''Balance'') (Some (js ''abc''))))
   \<and> listPages True authMissingError emptyPrimary noSpaces oneHitService []
        (titleParams (js ''Balance'') (Some (js ''abc'')))
      = ([FetchPages (titleParams (js ''Balance'') (Some (js ''abc'')))], Inr emptyPage)
   \<and> length (pr_results emptyPage) = 0
   \<and> map p_id (pr_results (projr (snd (listPages True authMissingError emptyPrimary noSpaces oneHitService []
        (titleParams (js ''Balance'') None))))) = [js ''42'']"
proof -
  have t: "truthy (lp_cursor (titleParams (js ''Balance'') (Some (js ''abc''))))"
    by (simp add: titleParams_def truthy_def js_def)
  have f: "emptyPrimary (titleParams (js ''Balance'') (Some (js ''abc''))) = Inr (WellFormed emptyPage)"
    by (simp add: emptyPrimary_def)
  have n: "map p_id (pr_results (projr (snd (listPages True authMissingError emptyPrimary noSpaces
              oneHitService [] (titleParams (js ''Balance'') None))))) = [js ''42'']"
    by (simp add: listPages_def emptyPrimary_def emptyPage_def titleParams_def truthy_def
          tryPartialTitleSearch_def Let_def oneHitService_def exampleHit_def
          transformSearchResultsToPagesFormat_def orElse_def js_def push_def)
  from cursor_blocks_fallback [where fetchAtlassian = emptyPrimary and credentials = True
      and page = emptyPage and authMissing = authMissingError and spacesList = noSpaces
      and searchService = oneHitService and now = "[]", OF t] f t n
  show ?thesis by (simp add: emptyPage_def)
qed

section \<open>Inline comments: the window of 250\<close>

lemma set_insertBy: "set (insertBy cmp x xs) = insert x (set xs)"
  by (induction xs) auto

lemma set_sortJS: "set (sortJS cmp xs) = set xs"
  unfolding sortJS_def by (induction xs) (simp_all add: set_insertBy)

lemma length_insertBy: "length (insertBy cmp x xs) = Suc (length xs)"
  by (induction xs) auto

lemma length_sortJS: "length (sortJS cmp xs) = length xs"
  unfolding sortJS_def by (induction xs) (simp_all add: length_insertBy)

lemma sorted_insertBy:
  assumes total: "\<And>a b. cmp a b \<le> 0 \<or> cmp b a \<le> 0"
    and trans: "\<And>a b c. cmp a b \<le> 0 \<Longrightarrow> cmp b c \<le> 0 \<Longrightarrow> cmp a c \<le> 0"
  shows "sorted_wrt (\<lambda>a b. cmp a b \<le> 0) xs \<Longrightarrow> sorted_wrt (\<lambda>a b. cmp a b \<le> 0) (insertBy cmp x xs)"
proof (induction xs)
  case Nil
  show ?case by simp
next
  case (Cons y ys)
  show ?case
  proof (cases "cmp x y \<le> 0")
    case True
    with Cons.prems trans show ?thesis by auto
  next
    case False
    with total [of x y] have "cmp y x \<le> 0" by simp
    with False Cons show ?thesis by (auto simp: set_insertBy)
  qed
qed

lemma sorted_sortJS:
  assumes "\<And>a b. cmp a b \<le> 0 \<or> cmp b a \<le> 0"
    and "\<And>a b c. cmp a b \<le> 0 \<Longrightarrow> cmp b c \<le> 0 \<Longrightarrow> cmp a c \<le> 0"
  shows "sorted_wrt (\<lambda>a b. cmp a b \<le> 0) (sortJS cmp xs)"
  unfolding sortJS_def
  by (induction xs) (simp_all add: sorted_insertBy [of cmp, OF assms])

lemma set_sliceJS: "set (sliceJS xs a b) \<subseteq> set xs"
proof -
  have "set (take n (drop m xs)) \<subseteq> set xs" for n m
    using set_take_subset [of n "drop m xs"] set_drop_subset [of m xs] by blast
  then show ?thesis by (simp add: sliceJS_def Let_def)
qed

lemma sorted_sliceJS: "sorted_wrt P xs \<Longrightarrow> sorted_wrt P (sliceJS xs a b)"
  by (simp add: sliceJS_def Let_def sorted_wrt_take sorted_wrt_drop)

lemma sliceJS_window:
  assumes "0 \<le> a" "0 \<le> n"
  shows "sliceJS xs a (a + n) = take (nat n) (drop (nat a) xs)"
proof (cases "a \<le> int (length xs)")
  case False
  with assms show ?thesis by (simp add: sliceJS_def Let_def min_def)
next
  case True
  show ?thesis
  proof (cases "a + n \<le> int (length xs)")
    case True
    with assms \<open>a \<le> int (length xs)\<close> show ?thesis
      by (simp add: sliceJS_def Let_def min_def)
  next
    case False
    with assms True have "length (drop (nat a) xs) \<le> nat n" by simp
    with assms True False show ?thesis
      by (simp add: sliceJS_def Let_def min_def)
  qed
qed

lemma comment_withContext: "comment (withContext adfToMarkdown c) = c"
  by (simp add: withContext_def Let_def)

lemma gather_trace:
  "fst (listInlineCommentsGather DEFAULT_PAGE_SIZE listPageComments adfToMarkdown localeCompare options)
     = [\<lparr>lc_pageId = o_pageId options, lc_limit = 250, lc_start = 0,
         lc_bodyFormat = (case o_bodyFormat options of Some f \<Rightarrow> f | None \<Rightarrow> js ''atlas_doc_format'')\<rparr>]"
  by (simp add: listInlineCommentsGather_def Let_def split: sum.splits)

lemma gather_listing:
  fixes options :: ListInlineCommentsOptions and DEFAULT_PAGE_SIZE :: int
  defines "request \<equiv> \<lparr>lc_pageId = o_pageId options, lc_limit = 250, lc_start = 0,
              lc_bodyFormat = (case o_bodyFormat options of Some f \<Rightarrow> f | None \<Rightarrow> js ''atlas_doc_format'')\<rparr>"
    and "keep \<equiv> keepInline (case o_includeResolved options of Some b \<Rightarrow> b | None \<Rightarrow> False)"
    and "start \<equiv> (case o_start options of Some v \<Rightarrow> v | None \<Rightarrow> 0)"
    and "lim \<equiv> (case o_limit options of Some l \<Rightarrow> l | None \<Rightarrow> DEFAULT_PAGE_SIZE)"
    and "key \<equiv> (case o_sortBy options of
                   Some created \<Rightarrow> (\<lambda>a. cd_id (comment a))
                 | Some position \<Rightarrow> positionKey
                 | None \<Rightarrow> positionKey)"
  assumes run: "snd (listInlineCommentsGather DEFAULT_PAGE_SIZE listPageComments adfToMarkdown
                  localeCompare options) = Inr listing"
  shows "\<exists>response.
           listPageComments request = Inr response
         \<and> il_comments listing
             = sliceJS (sortJS (\<lambda>a b. localeCompare (key a) (key b))
                          (map (withContext adfToMarkdown) (filter keep (cr_results response))))
                 start (start + lim)
         \<and> il_totalCount listing = length (filter keep (cr_results response))"
proof -
  from run obtain response where r: "listPageComments request = Inr response"
    unfolding request_def
    by (cases "listPageComments \<lparr>lc_pageId = o_pageId options, lc_limit = 250, lc_start = 0,
              lc_bodyFormat = (case o_bodyFormat options of Some f \<Rightarrow> f | None \<Rightarrow> js ''atlas_doc_format'')\<rparr>")
       (simp_all add: listInlineCommentsGather_def Let_def)
  from run r have "il_comments listing
             = sliceJS (sortJS (\<lambda>a b. localeCompare (key a) (key b))
                          (map (withContext adfToMarkdown) (filter keep (cr_results response))))
                 start (start + lim)"
    and "il_totalCount listing = length (filter keep (cr_results response))"
    unfolding request_def keep_def start_def lim_def key_def
    by (cases "o_sortBy options"; cases "the (o_sortBy options)";
        auto simp add: listInlineCommentsGather_def Let_def length_sortJS)+
  with r show ?thesis by blast
qed

text \<open>
  Claim C10. Whatever limit and start the caller gives, \<open>listInlineComments\<close> makes
  one call to the comments service, for the page's comments with limit 250 from offset
  0. What it returns is computed in memory from that one response: the inline comments
  that pass the filter, sorted by the requested key, and of the sorted list the slice
  from the caller's start to start plus limit (for a start and a limit that are not
  negative, \<open>limit\<close> entries after dropping \<open>start\<close>). The total it reports counts the
  filtered comments of that response, and with a collation that is a total preorder
  the returned comments are in ascending order of their key. So against a remote that
  pages by offset, every returned comment is among the first 250 comments of the page.
\<close>

theorem inline_comments_fixed_window:
  fixes options :: ListInlineCommentsOptions and DEFAULT_PAGE_SIZE :: int
  defines "request \<equiv> \<lparr>lc_pageId = o_pageId options, lc_limit = 250, lc_start = 0,
              lc_bodyFormat = (case o_bodyFormat options of Some f \<Rightarrow> f | None \<Rightarrow> js ''atlas_doc_format'')\<rparr>"
    and "keep \<equiv> keepInline (case o_includeResolved options of Some b \<Rightarrow> b | None \<Rightarrow> False)"
    and "start \<equiv> (case o_start options of Some v \<Rightarrow> v | None \<Rightarrow> 0)"
    and "lim \<equiv> (case o_limit options of Some l \<Rightarrow> l | None \<Rightarrow> DEFAULT_PAGE_SIZE)"
    and "key \<equiv> (case o_sortBy options of
                   Some created \<Rightarrow> (\<lambda>a. cd_id (comment a))
                 | Some position \<Rightarrow> positionKey
                 | None \<Rightarrow> positionKey)"
  shows
  "fst (listInlineCommentsGather DEFAULT_PAGE_SIZE listPageComments adfToMarkdown localeCompare options)
     = [request]
   \<and> (snd (listInlineCommentsGather DEFAULT_PAGE_SIZE listPageComments adfToMarkdown
              localeCompare options) = Inr listing \<longrightarrow>
        (\<exists>response.
           listPageComments request = Inr response
         \<and> il_comments listing
             = sliceJS (sortJS (\<lambda>a b. localeCompare (key a) (key b))
                          (map (withContext adfToMarkdown) (filter keep (cr_results response))))
                 start (start + lim)
         \<and> (0 \<le> start \<and> 0 \<le> lim \<longrightarrow>
              il_comments listing
                = take (nat lim) (drop (nat start)
                    (sortJS (\<lambda>a b. localeCompare (key a) (key b))
                       (map (withContext adfToMarkdown) (filter keep (cr_results response))))))
         \<and> set (map comment (il_comments listing)) \<subseteq> set (filter keep (cr_results response))
         \<and> il_totalCount listing = length (filter keep (cr_results response))
         \<and> ((\<forall>a b. localeCompare a b \<le> 0 \<or> localeCompare b a \<le> 0)
              \<and> (\<forall>a b c. localeCompare a b \<le> 0 \<and> localeCompare b c \<le> 0 \<longrightarrow> localeCompare a c \<le> 0)
              \<longrightarrow> sorted_wrt (\<lambda>a b. localeCompare (key a) (key b) \<le> 0) (il_comments listing))))
   \<and> (snd (listInlineCommentsGather DEFAULT_PAGE_SIZE (pagedComments allComments) adfToMarkdown
              localeCompare options) = Inr paged \<longrightarrow>
        set (map comment (il_comments paged)) \<subseteq> set (take 250 allComments))"
proof -
  let ?cmp = "\<lambda>a b. localeCompare (key a) (key b)"
  have inside: "set (map comment (sliceJS (sortJS ?cmp (map (withContext adfToMarkdown) (filter keep cs))) i j))
                   \<subseteq> set (filter keep cs)" for cs i j
  proof -
    have "set (sliceJS (sortJS ?cmp (map (withContext adfToMarkdown) (filter keep cs))) i j)
            \<subseteq> set (map (withContext adfToMarkdown) (filter keep cs))"
      using set_sliceJS [of "sortJS ?cmp (map (withContext adfToMarkdown) (filter keep cs))" i j]
      by (simp add: set_sortJS)
    then have "comment ` set (sliceJS (sortJS ?cmp (map (withContext adfToMarkdown) (filter keep cs))) i j)
            \<subseteq> comment ` set (map (withContext adfToMarkdown) (filter keep cs))"
      by (rule image_mono)
    then show ?thesis by (simp add: image_image comment_withContext)
  qed
  have first: "fst (listInlineCommentsGather DEFAULT_PAGE_SIZE listPageComments adfToMarkdown
                      localeCompare options) = [request]"
    unfolding request_def by (rule gather_trace)
  have second: "\<exists>response.
           listPageComments request = Inr response
         \<and> il_comments listing
             = sliceJS (sortJS ?cmp (map (withContext adfToMarkdown) (filter keep (cr_results response))))
                 start (start + lim)
         \<and> (0 \<le> start \<and> 0 \<le> lim \<longrightarrow>
              il_comments listing
                = take (nat lim) (drop (nat start)
                    (sortJS ?cmp (map (withContext adfToMarkdown) (filter keep (cr_results response))))))
         \<and> set (map comment (il_comments listing)) \<subseteq> set (filter keep (cr_results response))
         \<and> il_totalCount listing = length (filter keep (cr_results response))
         \<and> ((\<forall>a b. localeCompare a b \<le> 0 \<or> localeCompare b a \<le> 0)
              \<and> (\<forall>a b c. localeCompare a b \<le> 0 \<and> localeCompare b c \<le> 0 \<longrightarrow> localeCompare a c \<le> 0)
              \<longrightarrow> sorted_wrt (\<lambda>a b. localeCompare (key a) (key b) \<le> 0) (il_comments listing))"
    if run: "snd (listInlineCommentsGather DEFAULT_PAGE_SIZE listPageComments adfToMarkdown
              localeCompare options) = Inr listing"
  proof -
    from gather_listing [OF run, folded request_def keep_def start_def lim_def key_def]
    obtain response where r: "listPageComments request = Inr response"
      and c: "il_comments listing
             = sliceJS (sortJS ?cmp (map (withContext adfToMarkdown) (filter keep (cr_results response))))
                 start (start + lim)"
      and t: "il_totalCount listing = length (filter keep (cr_results response))"
      by blast
    have w: "0 \<le> start \<and> 0 \<le> lim \<longrightarrow>
              il_comments listing
                = take (nat lim) (drop (nat start)
                    (sortJS ?cmp (map (withContext adfToMarkdown) (filter keep (cr_results response)))))"
      unfolding c by (simp add: sliceJS_window)
    have i: "set (map comment (il_comments listing)) \<subseteq> set (filter keep (cr_results response))"
      unfolding c by (rule inside)
    have o: "sorted_wrt (\<lambda>a b. localeCompare (key a) (key b) \<le> 0) (il_comments listing)"
      if "\<forall>a b. localeCompare a b \<le> 0 \<or> localeCompare b a \<le> 0"
        and "\<forall>a b c. localeCompare a b \<le> 0 \<and> localeCompare b c \<le> 0 \<longrightarrow> localeCompare a c \<le> 0"
      unfolding c
      by (rule sorted_sliceJS, rule sorted_sortJS) (use that in blast)+
    from r c t w i o show ?thesis by blast
  qed
  have third: "set (map comment (il_comments paged)) \<subseteq> set (take 250 allComments)"
    if run: "snd (listInlineCommentsGather DEFAULT_PAGE_SIZE (pagedComments allComments) adfToMarkdown
              localeCompare options) = Inr paged"
  proof -
    from gather_listing [OF run, folded request_def keep_def start_def lim_def key_def]
    obtain response where r: "pagedComments allComments request = Inr response"
      and c: "il_comments paged
             = sliceJS (sortJS ?cmp (map (withContext adfToMarkdown) (filter keep (cr_results response))))
                 start (start + lim)"
      by blast
    from r have "cr_results response = take 250 allComments"
      by (auto simp add: pagedComments_def request_def)
    with inside [of "cr_results response" start "start + lim"] show ?thesis
      unfolding c by auto
  qed
  from first second third show ?thesis by blast
qed

lemma example_ids: "cd_id (comment (withContext Some (inlineWithId i))) = i"
  by (simp add: comment_withContext inlineWithId_def)

lemma few_kept: "filter (keepInline False) fewComments
              = [inlineWithId (js ''30''), inlineWithId (js ''10''), inlineWithId (js ''20'')]"
    by (simp add: fewComments_def keepInline_def inlineWithId_def inlineComment_def
          pageComment_def js_def)

lemma few_sorted: "sortJS (\<lambda>a b. firstUnitCompare (cd_id (comment a)) (cd_id (comment b)))
               [withContext Some (inlineWithId (js ''30'')), withContext Some (inlineWithId (js ''10'')),
                withContext Some (inlineWithId (js ''20''))]
             = [withContext Some (inlineWithId (js ''10'')), withContext Some (inlineWithId (js ''20'')),
                withContext Some (inlineWithId (js ''30''))]"
  by (simp add: sortJS_def firstUnitCompare_def example_ids firstUnit_def js_def)

lemma firstUnitCompare_preorder:
  "\<forall>a b. firstUnitCompare a b \<le> 0 \<or> firstUnitCompare b a \<le> 0"
  "\<forall>a b c. firstUnitCompare a b \<le> 0 \<and> firstUnitCompare b c \<le> 0 \<longrightarrow> firstUnitCompare a c \<le> 0"
  by (auto simp add: firstUnitCompare_def)

lemma few_run_ok:
  "\<exists>listing. snd (listInlineCommentsGather 25 (pagedComments fewComments) (\<lambda>v. Some v)
                firstUnitCompare secondEntryOptions) = Inr listing"
  by (simp add: listInlineCommentsGather_def Let_def pagedComments_def)

lemma few_response:
  "pagedComments fewComments
         \<lparr>lc_pageId = p, lc_limit = 250, lc_start = 0, lc_bodyFormat = f\<rparr> = Inr response
   \<Longrightarrow> cr_results response = fewComments"
  by (auto simp add: pagedComments_def fewComments_def)

text \<open>
  Witness for C10. First a page with 250 footer comments followed by one inline
  comment, and a request with start 200 and limit 100: the service is asked for 250
  comments from 0, and the inline comment, the 251st of the page, is not returned.
  Then a page with the inline comments 30, 10 and 20 and a footer comment, sorted by
  creation with a collation on the first code unit, start 1 and limit 1: the total is
  3 and the one comment returned is 20, the second of the sorted list.
\<close>

theorem inline_comments_fixed_window_witness:
  "(fst (listInlineCommentsGather 25 (pagedComments manyComments) (\<lambda>v. Some v) (\<lambda>a b. 0) inlineOptions)
     = [\<lparr>lc_pageId = js ''1'', lc_limit = 250, lc_start = 0, lc_bodyFormat = js ''atlas_doc_format''\<rparr>]
   \<and> keepInline False inlineComment \<and> manyComments ! 250 = inlineComment
   \<and> (\<exists>listing. snd (listInlineCommentsGather 25 (pagedComments manyComments) (\<lambda>v. Some v)
                        (\<lambda>a b. 0) inlineOptions) = Inr listing
          \<and> inlineComment \<notin> set (map comment (il_comments listing))))
   \<and> (\<exists>listing. snd (listInlineCommentsGather 25 (pagedComments fewComments) (\<lambda>v. Some v)
                        firstUnitCompare secondEntryOptions) = Inr listing
          \<and> map (\<lambda>c. cd_id (comment c)) (il_comments listing) = [js ''20'']
          \<and> il_totalCount listing = 3
          \<and> sorted_wrt (\<lambda>a b. firstUnitCompare (cd_id (comment a)) (cd_id (comment b)) \<le> 0)
               (il_comments listing))"
  (is "?first \<and> ?second")
proof -
  let ?run = "listInlineCommentsGather 25 (pagedComments manyComments) (\<lambda>v. Some v) (\<lambda>a b. 0) inlineOptions"
  have k: "keepInline False inlineComment"
    by (simp add: keepInline_def inlineComment_def)
  have n: "manyComments ! 250 = inlineComment"
    by (simp add: manyComments_def nth_append)
  have tk: "take 250 manyComments = replicate 250 pageComment"
    by (simp add: manyComments_def)
  have d: "inlineComment \<noteq> pageComment"
    by (simp add: inlineComment_def pageComment_def js_def)
  obtain listing where r: "snd ?run = Inr listing"
    by (cases "snd ?run") (simp_all add: listInlineCommentsGather_def Let_def pagedComments_def)
  note m = inline_comments_fixed_window [where listPageComments = "pagedComments manyComments"
      and allComments = manyComments and options = inlineOptions and DEFAULT_PAGE_SIZE = 25
      and adfToMarkdown = "\<lambda>v. Some v" and localeCompare = "\<lambda>a b. 0" and paged = listing
      and listing = listing]
  from m [THEN conjunct1]
  have f: "fst ?run = [\<lparr>lc_pageId = js ''1'', lc_limit = 250, lc_start = 0,
                         lc_bodyFormat = js ''atlas_doc_format''\<rparr>]"
    by (simp add: inlineOptions_def)
  from m [THEN conjunct2, THEN conjunct2, THEN mp, OF r]
  have "set (map comment (il_comments listing)) \<subseteq> set (replicate 250 pageComment)"
    unfolding tk .
  with d have "inlineComment \<notin> set (map comment (il_comments listing))"
    by auto
  with r have "\<exists>listing. snd ?run = Inr listing
          \<and> inlineComment \<notin> set (map comment (il_comments listing))"
    by (intro exI [of _ listing] conjI)
  with f k n have part1: "?first" by (intro conjI)

  from few_run_ok obtain second where r2:
    "snd (listInlineCommentsGather 25 (pagedComments fewComments) (\<lambda>v. Some v)
                firstUnitCompare secondEntryOptions) = Inr second" ..
  note t = inline_comments_fixed_window [where listPageComments = "pagedComments fewComments"
      and options = secondEntryOptions and DEFAULT_PAGE_SIZE = 25
      and adfToMarkdown = "\<lambda>v. Some v" and localeCompare = firstUnitCompare
      and listing = second, THEN conjunct2, THEN conjunct1, THEN mp, OF r2]
  have b: "(0::int) \<le> (case o_start secondEntryOptions of Some v \<Rightarrow> v | None \<Rightarrow> 0)
            \<and> 0 \<le> (case o_limit secondEntryOptions of Some l \<Rightarrow> l | None \<Rightarrow> 25)"
    by (simp add: secondEntryOptions_def)
  from t have part2: "?second"
  proof (elim exE conjE)
    fix response
    assume p: "pagedComments fewComments
         \<lparr>lc_pageId = o_pageId secondEntryOptions, lc_limit = 250, lc_start = 0,
          lc_bodyFormat = (case o_bodyFormat secondEntryOptions of Some f \<Rightarrow> f | None \<Rightarrow> js ''atlas_doc_format'')\<rparr>
         = Inr response"
    note cr = few_response [OF p]
    assume w: "0 \<le> (case o_start secondEntryOptions of None \<Rightarrow> 0 | Some v \<Rightarrow> v) \<and>
       0 \<le> (case o_limit secondEntryOptions of None \<Rightarrow> 25 | Some l \<Rightarrow> l) \<longrightarrow>
       il_comments second =
       take (nat (case o_limit secondEntryOptions of None \<Rightarrow> 25 | Some l \<Rightarrow> l))
        (drop (nat (case o_start secondEntryOptions of None \<Rightarrow> 0 | Some v \<Rightarrow> v))
          (sortJS
            (\<lambda>a b. firstUnitCompare
                    ((case o_sortBy secondEntryOptions of None \<Rightarrow> positionKey
                      | Some created \<Rightarrow> \<lambda>a. cd_id (comment a)
                      | Some position \<Rightarrow> positionKey) a)
                    ((case o_sortBy secondEntryOptions of None \<Rightarrow> positionKey
                      | Some created \<Rightarrow> \<lambda>a. cd_id (comment a)
                      | Some position \<Rightarrow> positionKey) b))
            (map (withContext (\<lambda>v. Some v))
              (filter
                (keepInline
                  (case o_includeResolved secondEntryOptions of None \<Rightarrow> False
                   | Some b \<Rightarrow> b))
                (cr_results response)))))"
    assume c: "il_totalCount second =
      length (filter (keepInline (case o_includeResolved secondEntryOptions of None \<Rightarrow> False | Some b \<Rightarrow> b))
                (cr_results response))"
    assume o: "(\<forall>a b. firstUnitCompare a b \<le> 0 \<or> firstUnitCompare b a \<le> 0) \<and>
       (\<forall>a b c. firstUnitCompare a b \<le> 0 \<and> firstUnitCompare b c \<le> 0 \<longrightarrow> firstUnitCompare a c \<le> 0) \<longrightarrow>
       sorted_wrt
        (\<lambda>a b. firstUnitCompare
                ((case o_sortBy secondEntryOptions of None \<Rightarrow> positionKey
                  | Some created \<Rightarrow> \<lambda>a. cd_id (comment a)
                  | Some position \<Rightarrow> positionKey) a)
                ((case o_sortBy secondEntryOptions of None \<Rightarrow> positionKey
                  | Some created \<Rightarrow> \<lambda>a. cd_id (comment a)
                  | Some position \<Rightarrow> positionKey) b) \<le> 0)
        (il_comments second)"
    from w [THEN mp, OF b]
    have il: "il_comments second = [withContext Some (inlineWithId (js ''20''))]"
      unfolding cr by (simp add: secondEntryOptions_def few_kept few_sorted)
    from c have cnt: "il_totalCount second = 3"
      unfolding cr by (simp add: secondEntryOptions_def few_kept)
    from o [THEN mp, OF conjI, OF firstUnitCompare_preorder]
    have ord: "sorted_wrt (\<lambda>a b. firstUnitCompare (cd_id (comment a)) (cd_id (comment b)) \<le> 0)
               (il_comments second)"
      by (simp add: secondEntryOptions_def)
    from il have ids: "map (\<lambda>c. cd_id (comment c)) (il_comments second) = [js ''20'']"
      by (simp add: example_ids)
    show ?thesis by (rule exI [of _ second]) (intro conjI r2 ids cnt ord)
  qed
  show ?thesis by (rule conjI [OF part1 part2])
qed

end
